theory Spec2Isabelle
  imports Complex_Main "HOL-Library.Sublist"
begin

section \<open>Python values\<close>

text \<open>
  The agent (\<^verbatim>\<open>agent_fun.py\<close>) works on the values that \<^verbatim>\<open>json.loads\<close> returns and
  on the dictionaries it builds from them. A Python \<^verbatim>\<open>dict\<close> is an association list in
  insertion order; \<^verbatim>\<open>None\<close> is \<open>JNull\<close>. A Python \<^verbatim>\<open>float\<close> is its value: a rational
  when finite, or one of the three non-finite values that \<^verbatim>\<open>json.loads\<close> accepts.
  A Python \<^verbatim>\<open>str\<close> is a \<open>string\<close> whose characters are the code points below 256.
\<close>

datatype pyfloat = Finite rat | PosInf | NegInf | NaN

datatype json =
    JNull
  | JBool bool
  | JInt int
  | JFloat pyfloat
  | JString string
  | JArray "json list"
  | JObject "(string \<times> json) list"

type_synonym pydict = "(string \<times> json) list"

text \<open>The exceptions that the modelled code can raise.\<close>

datatype exn = KeyError | IndexError | TypeError | AttributeError | ValueError | RecursionError

text \<open>\<^verbatim>\<open>k in d\<close> and \<^verbatim>\<open>d.get(k, dflt)\<close> on a dictionary.\<close>

definition has_key :: "pydict \<Rightarrow> string \<Rightarrow> bool" where
  "has_key d k = (map_of d k \<noteq> None)"

definition dict_get :: "pydict \<Rightarrow> string \<Rightarrow> json \<Rightarrow> json" where
  "dict_get d k dflt = (case map_of d k of None \<Rightarrow> dflt | Some v \<Rightarrow> v)"

text \<open>Python truthiness (\<^verbatim>\<open>not v\<close>, \<^verbatim>\<open>if v\<close>, \<^verbatim>\<open>any(...)\<close>).\<close>

fun truthy :: "json \<Rightarrow> bool" where
  "truthy JNull = False"
| "truthy (JBool b) = b"
| "truthy (JInt n) = (n \<noteq> 0)"
| "truthy (JFloat f) = (f \<noteq> Finite 0)"
| "truthy (JString s) = (s \<noteq> [])"
| "truthy (JArray xs) = (xs \<noteq> [])"
| "truthy (JObject kvs) = (kvs \<noteq> [])"

text \<open>\<^verbatim>\<open>len(v)\<close>: defined on strings, lists and dictionaries, a \<^verbatim>\<open>TypeError\<close> otherwise.\<close>

fun py_len :: "json \<Rightarrow> exn + nat" where
  "py_len (JString s) = Inr (length s)"
| "py_len (JArray xs) = Inr (length xs)"
| "py_len (JObject kvs) = Inr (length kvs)"
| "py_len _ = Inl TypeError"

text \<open>Subscripting as in \<^verbatim>\<open>result["choices"][0]["message"]["content"]\<close>.\<close>

fun subscript_key :: "json \<Rightarrow> string \<Rightarrow> exn + json" where
  "subscript_key (JObject kvs) k = (case map_of kvs k of None \<Rightarrow> Inl KeyError | Some v \<Rightarrow> Inr v)"
| "subscript_key _ k = Inl TypeError"

fun subscript_0 :: "json \<Rightarrow> exn + json" where
  "subscript_0 (JArray []) = Inl IndexError"
| "subscript_0 (JArray (x # xs)) = Inr x"
| "subscript_0 (JString []) = Inl IndexError"
| "subscript_0 (JString (c # cs)) = Inr (JString [c])"
| "subscript_0 (JObject kvs) = Inl KeyError"
| "subscript_0 _ = Inl TypeError"

definition and_then :: "exn + 'a \<Rightarrow> ('a \<Rightarrow> exn + 'b) \<Rightarrow> exn + 'b" where
  "and_then r f = (case r of Inl e \<Rightarrow> Inl e | Inr v \<Rightarrow> f v)"

definition chat_content :: "json \<Rightarrow> exn + json" where
  "chat_content result =
     and_then (subscript_key result ''choices'') (\<lambda>choices.
     and_then (subscript_0 choices) (\<lambda>choice.
     and_then (subscript_key choice ''message'') (\<lambda>message.
     subscript_key message ''content'')))"

section \<open>String operations\<close>

text \<open>\<^verbatim>\<open>str.lower()\<close> on code points below 256: the ASCII capitals and the Latin-1
  capitals (all of \<open>0xC0..0xDE\<close> but the multiplication sign) move up by 32.\<close>

definition lower_char :: "char \<Rightarrow> char" where
  "lower_char c =
     (let n = of_char c :: nat in
      if (65 \<le> n \<and> n \<le> 90) \<or> (192 \<le> n \<and> n \<le> 222 \<and> n \<noteq> 215)
      then char_of (n + 32) else c)"

definition py_lower :: "string \<Rightarrow> string" where
  "py_lower s = map lower_char s"

text \<open>\<^verbatim>\<open>str.strip()\<close>: the characters below 256 for which \<^verbatim>\<open>isspace()\<close> holds.\<close>

definition is_space :: "char \<Rightarrow> bool" where
  "is_space c =
     (let n = of_char c :: nat in
      (9 \<le> n \<and> n \<le> 13) \<or> (28 \<le> n \<and> n \<le> 32) \<or> n = 133 \<or> n = 160)"

definition py_strip :: "string \<Rightarrow> string" where
  "py_strip s = rev (dropWhile is_space (rev (dropWhile is_space s)))"

text \<open>\<^verbatim>\<open>sub in s\<close> on strings.\<close>

fun str_in :: "string \<Rightarrow> string \<Rightarrow> bool" where
  "str_in sub [] = (sub = [])"
| "str_in sub (c # cs) = (prefix sub (c # cs) \<or> str_in sub cs)"

text \<open>\<^verbatim>\<open>s.replace(old, '')\<close> for a non-empty \<open>old\<close>: the occurrences are removed from
  left to right, without overlap.\<close>

function py_remove :: "string \<Rightarrow> string \<Rightarrow> string" where
  "py_remove old [] = []"
| "py_remove old (c # cs) =
     (if old \<noteq> [] \<and> prefix old (c # cs) then py_remove old (drop (length old) (c # cs))
      else c # py_remove old cs)"
  by pat_completeness auto
termination
  by (relation "measure (\<lambda>(old, s). length s)") auto

text \<open>\<^verbatim>\<open>sep.join(parts)\<close>.\<close>

fun py_join :: "string \<Rightarrow> string list \<Rightarrow> string" where
  "py_join sep [] = []"
| "py_join sep [x] = x"
| "py_join sep (x # y # ys) = x @ sep @ py_join sep (y # ys)"

text \<open>\<^verbatim>\<open>re.search(r'(\{.*\}|\[.*\])', content, re.DOTALL).group()\<close>: the leftmost
  position that holds an opening brace with a closing brace after it, or an opening
  bracket with a closing bracket after it; the greedy \<^verbatim>\<open>.*\<close> runs to the last closer.\<close>

definition through_last :: "char \<Rightarrow> string \<Rightarrow> string" where
  "through_last c s = rev (dropWhile (\<lambda>x. x \<noteq> c) (rev s))"

fun json_match :: "string \<Rightarrow> string option" where
  "json_match [] = None"
| "json_match (c # cs) =
     (if c = CHR ''{'' \<and> CHR ''}'' \<in> set cs then Some (c # through_last CHR ''}'' cs)
      else if c = CHR ''['' \<and> CHR '']'' \<in> set cs then Some (c # through_last CHR '']'' cs)
      else json_match cs)"

section \<open>The library functions the code calls\<close>

text \<open>
  What the code takes from outside the repository is a parameter of the model:
  \<^item> \<open>json_loads\<close> is \<^verbatim>\<open>json.loads\<close>: it returns the parsed value, raises
    \<^verbatim>\<open>JSONDecodeError\<close> on a text that is not JSON, or raises another exception (a plain
    \<^verbatim>\<open>ValueError\<close> on an integer of more than 4300 digits, a \<^verbatim>\<open>RecursionError\<close> on a text
    nested deeper than the interpreter allows);
  \<^item> \<open>py_repr\<close> is \<^verbatim>\<open>str(v)\<close> of a value that is not a string (for a list, the
    bracketed list of the \<^verbatim>\<open>repr\<close> of its elements);
  \<^item> \<open>coord_search\<close> is \<^verbatim>\<open>re.search(r'(-?\d+\.\d+)[,\s]+(-?\d+\.\d+)', content)\<close> followed
    by \<^verbatim>\<open>float\<close> of its two groups;
  \<^item> the four \<open>emoji\<close> strings are the pictographs that open the labels of the merged
    answer; their code points are beyond 255.
\<close>

datatype loads_result = Parsed json | JSONDecodeError | Raises exn

record env =
  json_loads :: "string \<Rightarrow> loads_result"
  py_repr :: "json \<Rightarrow> string"
  coord_search :: "string \<Rightarrow> (pyfloat \<times> pyfloat) option"
  emoji_weather :: string
  emoji_books :: string
  emoji_joke :: string
  emoji_dog :: string

text \<open>\<^verbatim>\<open>str(v)\<close>, also what an f-string writes for \<^verbatim>\<open>{v}\<close>.\<close>

definition str_of :: "env \<Rightarrow> json \<Rightarrow> string" where
  "str_of E v = (case v of JString s \<Rightarrow> s | _ \<Rightarrow> py_repr E v)"

section \<open>The action decoder: lines 101 to 188 of \<^verbatim>\<open>llm_json\<close>\<close>

text \<open>The two shapes of dictionary that the decoder builds itself.\<close>

definition final :: "json \<Rightarrow> pydict" where
  "final answer = [(''action'', JString ''final''), (''answer'', answer)]"

definition tool_call :: "json \<Rightarrow> json \<Rightarrow> pydict" where
  "tool_call action args = [(''action'', action), (''args'', args)]"

text \<open>The \<^verbatim>\<open>for item in parsed\<close> loop of the list branch: the first item that is a
  dictionary with an \<^verbatim>\<open>"action"\<close> key is returned as it is.\<close>

fun first_action :: "json list \<Rightarrow> pydict option" where
  "first_action [] = None"
| "first_action (JObject d # items) = (if has_key d ''action'' then Some d else first_action items)"
| "first_action (_ # items) = first_action items"

definition decode_list :: "env \<Rightarrow> json list \<Rightarrow> pydict" where
  "decode_list E parsed =
     (case first_action parsed of
        Some item \<Rightarrow> item
      | None \<Rightarrow>
          (case parsed of
             x # _ \<Rightarrow> final (JString (str_of E x))
           | [] \<Rightarrow> final (JString ''I received an empty response.'')))"

definition decode_dict :: "env \<Rightarrow> pydict \<Rightarrow> pydict" where
  "decode_dict E parsed =
     (if has_key parsed ''action'' then
        (let action = dict_get parsed ''action'' (JString []);
             args = dict_get parsed ''args'' (JObject [])
         in if action = JString ''final'' then
              (let answer = dict_get parsed ''answer'' (JString [])
               in final (if \<not> truthy answer
                         then JString ''I have gathered the information you requested.''
                         else answer))
            else tool_call action (case args of JObject kvs \<Rightarrow> args | _ \<Rightarrow> JObject []))
      else if has_key parsed ''answer'' then final (dict_get parsed ''answer'' JNull)
      else if has_key parsed ''response'' then final (dict_get parsed ''response'' JNull)
      else final (JString (str_of E (JObject parsed))))"

definition decode_parsed :: "env \<Rightarrow> json \<Rightarrow> pydict" where
  "decode_parsed E parsed =
     (case parsed of
        JArray items \<Rightarrow> decode_list E items
      | JObject d \<Rightarrow> decode_dict E d
      | _ \<Rightarrow> final (JString (str_of E parsed)))"

text \<open>The handler of \<^verbatim>\<open>JSONDecodeError\<close>. First the embedded JSON text, if any, is parsed
  again; the bare \<^verbatim>\<open>except: pass\<close> swallows every exception of the second parse.\<close>

definition reparse :: "env \<Rightarrow> string \<Rightarrow> pydict option" where
  "reparse E content =
     (case json_match content of
        None \<Rightarrow> None
      | Some m \<Rightarrow>
          (case json_loads E m of
             Parsed (JObject d) \<Rightarrow> if has_key d ''action'' then Some d else None
           | Parsed (JArray (JObject d # _)) \<Rightarrow> if has_key d ''action'' then Some d else None
           | _ \<Rightarrow> None))"

definition known_tools :: "string list" where
  "known_tools =
     [''get_weather'', ''book_recs'', ''random_joke'', ''random_dog'', ''city_to_coords'', ''trivia'']"

definition heuristic_call :: "env \<Rightarrow> string \<Rightarrow> string \<Rightarrow> pydict" where
  "heuristic_call E content tool_name =
     (case (coord_search E content, tool_name = ''get_weather'') of
        (Some (lat, lon), True) \<Rightarrow>
          tool_call (JString ''get_weather'')
            (JObject [(''latitude'', JFloat lat), (''longitude'', JFloat lon)])
      | _ \<Rightarrow>
          if tool_name = ''book_recs'' \<and> str_in ''mystery'' (py_lower content)
          then tool_call (JString ''book_recs'')
                 (JObject [(''topic'', JString ''mystery''), (''limit'', JInt 2)])
          else tool_call (JString tool_name) (JObject []))"

fun scan_tools :: "env \<Rightarrow> string \<Rightarrow> string list \<Rightarrow> pydict option" where
  "scan_tools E content [] = None"
| "scan_tools E content (tool_name # rest) =
     (if str_in tool_name (py_lower content) then Some (heuristic_call E content tool_name)
      else scan_tools E content rest)"

definition looks_like_answer :: "string \<Rightarrow> bool" where
  "looks_like_answer content =
     (str_in ''weather'' (py_lower content) \<or> str_in ''temperature'' (py_lower content)
      \<or> str_in ''answer'' (py_lower content))"

definition decode_fallback :: "env \<Rightarrow> string \<Rightarrow> pydict" where
  "decode_fallback E content =
     (case reparse E content of
        Some d \<Rightarrow> d
      | None \<Rightarrow>
          if looks_like_answer content then final (JString content)
          else (case scan_tools E content known_tools of
                  Some d \<Rightarrow> d
                | None \<Rightarrow> final (JString content)))"

definition clean :: "string \<Rightarrow> string" where
  "clean raw = py_strip (py_remove ''```'' (py_remove ''```json'' raw))"

text \<open>The decoding step. The inner \<^verbatim>\<open>try\<close> catches \<^verbatim>\<open>JSONDecodeError\<close> only, and the outer
  one \<^verbatim>\<open>RequestException\<close> only: any other exception of \<^verbatim>\<open>json.loads\<close> leaves the
  decoder (\<open>Inl\<close>).\<close>

definition decode :: "env \<Rightarrow> string \<Rightarrow> exn + pydict" where
  "decode E raw =
     (let content = clean raw
      in case json_loads E content of
           Parsed parsed \<Rightarrow> Inr (decode_parsed E parsed)
         | JSONDecodeError \<Rightarrow> Inr (decode_fallback E content)
         | Raises e \<Rightarrow> Inl e)"

section \<open>The decision call: \<^verbatim>\<open>llm_json\<close>\<close>

text \<open>
  The outcome of \<^verbatim>\<open>requests.post\<close>: it raises a \<^verbatim>\<open>RequestException\<close> (no connection, a
  timeout), or returns a response with a status code and a body text.
  \<^verbatim>\<open>response.json()\<close> on a body that is not JSON raises the library's own
  \<^verbatim>\<open>JSONDecodeError\<close>, a \<^verbatim>\<open>RequestException\<close>, which the outer handler of \<^verbatim>\<open>llm_json\<close>
  catches; it passes on any other exception of the parser. Console output is not part of
  the model.
\<close>

datatype http_outcome = ConnFailed string | Response int string

definition status_apology :: pydict where
  "status_apology = final (JString ''Error contacting weather service. Please try again.'')"

definition connection_apology :: pydict where
  "connection_apology =
     final (JString (''Sorry, I'' @ [CHR 0x27]
       @ ''m having trouble connecting to services. Please try again.''))"

definition llm_json :: "env \<Rightarrow> http_outcome \<Rightarrow> exn + pydict" where
  "llm_json E outcome =
     (case outcome of
        ConnFailed msg \<Rightarrow> Inr connection_apology
      | Response status_code body \<Rightarrow>
          if status_code \<noteq> 200 then Inr status_apology
          else (case json_loads E body of
                  JSONDecodeError \<Rightarrow> Inr connection_apology
                | Raises e \<Rightarrow> Inl e
                | Parsed result \<Rightarrow>
                    and_then (chat_content result) (\<lambda>content.
                      case content of
                        JString raw \<Rightarrow> decode E raw
                      | _ \<Rightarrow> Inl AttributeError)))"

section \<open>The reflection call: \<^verbatim>\<open>reflect_with_groq\<close>\<close>

datatype event =
    DecisionRequested
  | ReviewRequested json
  | ToolInvoked string json

text \<open>What the \<^verbatim>\<open>try\<close> block of \<^verbatim>\<open>reflect_with_groq\<close> returns; \<^verbatim>\<open>raise_for_status\<close> raises
  on the statuses 400 to 599, and \<^verbatim>\<open>except Exception\<close> turns every failure into the
  sentinel.\<close>

definition review_reply :: "env \<Rightarrow> http_outcome \<Rightarrow> string" where
  "review_reply E outcome =
     (case outcome of
        ConnFailed msg \<Rightarrow> ''looks good''
      | Response status_code body \<Rightarrow>
          if 400 \<le> status_code \<and> status_code < 600 then ''looks good''
          else (case json_loads E body of
                  Parsed result \<Rightarrow>
                    (case chat_content result of
                       Inr (JString content) \<Rightarrow> py_strip content
                     | _ \<Rightarrow> ''looks good'')
                | _ \<Rightarrow> ''looks good''))"

text \<open>The function returns its result and the review requests it has sent: none when
  the answer is shorter than 200, one otherwise. \<open>outcome\<close> is what the request gives
  if it is sent.\<close>

definition reflect_with_groq :: "env \<Rightarrow> http_outcome \<Rightarrow> json \<Rightarrow> exn + (string \<times> event list)" where
  "reflect_with_groq E outcome answer =
     and_then (py_len answer) (\<lambda>n.
       if n < 200 then Inr (''looks good'', [])
       else Inr (review_reply E outcome, [ReviewRequested answer]))"

section \<open>The loop of \<^verbatim>\<open>main\<close>\<close>

datatype role = System | User | Assistant

type_synonym turn = "role \<times> json"

record gathered =
  weather :: json
  books :: json
  joke :: json
  dog :: json
  trivia :: json

definition no_info :: gathered where
  "no_info = \<lparr>weather = JNull, books = JNull, joke = JNull, dog = JNull, trivia = JNull\<rparr>"

record state =
  history :: "turn list"
  gathered_info :: gathered
  events :: "event list"

text \<open>The tool server, as the client sees it: \<^verbatim>\<open>session.call_tool\<close> raises (with the text
  of the exception), or returns a result with a list of content items and the text that
  \<^verbatim>\<open>json.dumps(result.model_dump())\<close> gives. An item without a \<^verbatim>\<open>text\<close> attribute carries
  the text of the \<^verbatim>\<open>AttributeError\<close> that reading it raises. The three outside parties
  answer as functions of the conversation so far.\<close>

datatype content_item = TextContent string | NoText string

datatype tool_outcome = Raised string | Returned "content_item list" string

record world =
  post_chat :: "turn list \<Rightarrow> http_outcome"
  post_review :: "turn list \<Rightarrow> json \<Rightarrow> http_outcome"
  call_tool :: "turn list \<Rightarrow> string \<Rightarrow> json \<Rightarrow> tool_outcome"

definition append_turn :: "role \<Rightarrow> json \<Rightarrow> state \<Rightarrow> state" where
  "append_turn r content s = s\<lparr>history := history s @ [(r, content)]\<rparr>"

definition log_events :: "event list \<Rightarrow> state \<Rightarrow> state" where
  "log_events evs s = s\<lparr>events := events s @ evs\<rparr>"

subsection \<open>Final answers: lines 287 to 317\<close>

definition any_gathered :: "gathered \<Rightarrow> bool" where
  "any_gathered g =
     (truthy (weather g) \<or> truthy (books g) \<or> truthy (joke g) \<or> truthy (dog g)
      \<or> truthy (trivia g))"

definition mentions_all :: "string \<Rightarrow> bool" where
  "mentions_all user =
     (str_in ''weather'' (py_lower user) \<and> str_in ''book'' (py_lower user)
      \<and> str_in ''joke'' (py_lower user))"

definition final_answer_parts :: "env \<Rightarrow> gathered \<Rightarrow> string list" where
  "final_answer_parts E g =
     (if truthy (weather g) then [emoji_weather E @ '' Weather: '' @ str_of E (weather g)] else [])
     @ (if truthy (books g) then [emoji_books E @ '' Book suggestions: '' @ str_of E (books g)]
        else [])
     @ (if truthy (joke g) then [emoji_joke E @ '' Joke: '' @ str_of E (joke g)] else [])
     @ (if truthy (dog g) then [emoji_dog E @ '' Dog picture: '' @ str_of E (dog g)] else [])"

definition plan_header :: string where
  "plan_header =
     ''Here'' @ [CHR 0x27] @ ''s your cozy Saturday plan for New York!'' @ [CHR 0x0A, CHR 0x0A]"

definition combine_answer :: "env \<Rightarrow> string \<Rightarrow> gathered \<Rightarrow> json \<Rightarrow> json" where
  "combine_answer E user g answer =
     (if any_gathered g then
        (if mentions_all user then
           (let parts = final_answer_parts E g
            in if parts \<noteq> [] then JString (plan_header @ py_join [CHR 0x0A, CHR 0x0A] parts)
               else answer)
         else answer)
      else answer)"

datatype flow = Break | Continue | Crashed exn

definition final_branch :: "env \<Rightarrow> world \<Rightarrow> string \<Rightarrow> pydict \<Rightarrow> state \<Rightarrow> flow \<times> state" where
  "final_branch E W user decision s =
     (let answer = combine_answer E user (gathered_info s) (dict_get decision ''answer'' (JString []))
      in case py_len answer of
           Inl e \<Rightarrow> (Crashed e, s)
         | Inr n \<Rightarrow>
             if 150 < n then
               (case reflect_with_groq E (post_review W (history s) answer) answer of
                  Inl e \<Rightarrow> (Crashed e, s)
                | Inr (reflection_result, evs) \<Rightarrow>
                    (Break,
                     append_turn Assistant
                       (if py_lower reflection_result \<noteq> ''looks good''
                        then JString reflection_result else answer)
                       (log_events evs s)))
             else (Break, append_turn Assistant answer s))"

subsection \<open>Tool calls: lines 335 to 396\<close>

text \<open>\<^verbatim>\<open>v == n\<close> and \<^verbatim>\<open>v > n\<close> for an integer literal \<open>n\<close>; the order comparison raises a
  \<^verbatim>\<open>TypeError\<close> on a value that is not a number.\<close>

fun py_eq_int :: "json \<Rightarrow> int \<Rightarrow> bool" where
  "py_eq_int (JInt m) n = (m = n)"
| "py_eq_int (JFloat (Finite r)) n = (r = of_int n)"
| "py_eq_int (JBool b) n = ((if b then 1 else 0) = n)"
| "py_eq_int _ n = False"

fun py_gt_int :: "json \<Rightarrow> int \<Rightarrow> exn + bool" where
  "py_gt_int (JInt m) n = Inr (n < m)"
| "py_gt_int (JFloat (Finite r)) n = Inr (of_int n < r)"
| "py_gt_int (JFloat PosInf) n = Inr True"
| "py_gt_int (JFloat f) n = Inr False"
| "py_gt_int (JBool b) n = Inr (n < (if b then 1 else 0))"
| "py_gt_int _ n = Inl TypeError"

text \<open>The five extraction rules. Each is the body of an inner \<^verbatim>\<open>try\<close>, \<open>None\<close> when it
  raises; the bare \<^verbatim>\<open>except\<close> then stores the placeholder of the tool.\<close>

definition weather_summary :: "env \<Rightarrow> string \<Rightarrow> json option" where
  "weather_summary E payload =
     (case json_loads E payload of
        Parsed (JObject weather_data) \<Rightarrow>
          (let temp = dict_get weather_data ''temperature_2m'' (JString ''N/A'');
               code = dict_get weather_data ''weather_code'' (JInt 0);
               line = (\<lambda>weather_desc.
                 JString (str_of E temp @ [CHR 0xC2, CHR 0xB0] @ ''C, '' @ weather_desc))
           in if py_eq_int code 0 \<or> py_eq_int code 1 then Some (line ''sunny'')
              else if py_eq_int code 2 \<or> py_eq_int code 3 then Some (line ''cloudy'')
              else (case py_gt_int code 50 of
                      Inl e \<Rightarrow> None
                    | Inr b \<Rightarrow> Some (line (if b then ''rainy'' else ''clear''))))
      | _ \<Rightarrow> None)"

fun titles_of :: "json list \<Rightarrow> json list option" where
  "titles_of [] = Some []"
| "titles_of (JObject b # bs) =
     map_option ((#) (dict_get b ''title'' (JString ''Unknown''))) (titles_of bs)"
| "titles_of (_ # bs) = None"

fun all_strings :: "json list \<Rightarrow> string list option" where
  "all_strings [] = Some []"
| "all_strings (JString s # vs) = map_option ((#) s) (all_strings vs)"
| "all_strings (_ # vs) = None"

definition books_summary :: "env \<Rightarrow> string \<Rightarrow> json option" where
  "books_summary E payload =
     (case json_loads E payload of
        Parsed (JObject book_data) \<Rightarrow>
          (case (case dict_get book_data ''results'' (JArray []) of
                   JArray results \<Rightarrow> titles_of (take 2 results)
                 | JString s \<Rightarrow> if s = [] then Some [] else None
                 | _ \<Rightarrow> None) of
             None \<Rightarrow> None
           | Some book_titles \<Rightarrow>
               if book_titles \<noteq> []
               then map_option (\<lambda>ts. JString (py_join '', '' ts)) (all_strings book_titles)
               else Some (JString ''Mystery books''))
      | _ \<Rightarrow> None)"

definition field_summary :: "env \<Rightarrow> string \<Rightarrow> string \<Rightarrow> string \<Rightarrow> json option" where
  "field_summary E payload key dflt =
     (case json_loads E payload of
        Parsed (JObject d) \<Rightarrow> Some (dict_get d key (JString dflt))
      | _ \<Rightarrow> None)"

definition trivia_summary :: "env \<Rightarrow> string \<Rightarrow> json option" where
  "trivia_summary E payload =
     (case json_loads E payload of
        Parsed (JObject trivia_data) \<Rightarrow>
          (let question = dict_get trivia_data ''question'' (JString [])
           in case py_len question of
                Inl e \<Rightarrow> None
              | Inr n \<Rightarrow>
                  if 100 < n then
                    (case question of
                       JString q \<Rightarrow> Some (JString (take 100 q @ ''...''))
                     | _ \<Rightarrow> None)
                  else Some question)
      | _ \<Rightarrow> None)"

definition or_else :: "json option \<Rightarrow> string \<Rightarrow> json" where
  "or_else r placeholder = (case r of Some v \<Rightarrow> v | None \<Rightarrow> JString placeholder)"

definition store :: "env \<Rightarrow> string \<Rightarrow> string \<Rightarrow> gathered \<Rightarrow> gathered" where
  "store E tname payload g =
     (if tname = ''get_weather''
      then g\<lparr>weather := or_else (weather_summary E payload) ''Weather data received''\<rparr>
      else if tname = ''book_recs''
      then g\<lparr>books := or_else (books_summary E payload) ''Mystery book recommendations''\<rparr>
      else if tname = ''random_joke''
      then g\<lparr>joke := or_else (field_summary E payload ''joke'' ''A funny joke!'')
                       ''A lighthearted joke''\<rparr>
      else if tname = ''random_dog''
      then g\<lparr>dog := or_else (field_summary E payload ''message'' ''cute dog picture'')
                      ''A cute dog picture URL''\<rparr>
      else if tname = ''trivia''
      then g\<lparr>trivia := or_else (trivia_summary E payload) ''Trivia question''\<rparr>
      else g)"

text \<open>The payload of a result: the text of the first content item, or the dump of the
  result when there is no content. \<open>Inl\<close> is the text of the exception raised.\<close>

definition payload_of :: "content_item list \<Rightarrow> string \<Rightarrow> string + string" where
  "payload_of content dump =
     (case content of
        [] \<Rightarrow> Inr dump
      | TextContent t # _ \<Rightarrow> Inr t
      | NoText msg # _ \<Rightarrow> Inl msg)"

definition error_with :: "string \<Rightarrow> string \<Rightarrow> json" where
  "error_with tname details = JString (''Error with '' @ tname @ '': '' @ details)"

definition dispatch :: "env \<Rightarrow> world \<Rightarrow> string \<Rightarrow> json \<Rightarrow> state \<Rightarrow> state" where
  "dispatch E W tname args s =
     (let s1 = log_events [ToolInvoked tname args] s
      in case call_tool W (history s) tname args of
           Raised details \<Rightarrow> append_turn Assistant (error_with tname details) s1
         | Returned content dump \<Rightarrow>
             (case payload_of content dump of
                Inl details \<Rightarrow> append_turn Assistant (error_with tname details) s1
              | Inr payload \<Rightarrow>
                  append_turn Assistant (JString (''[tool:'' @ tname @ ''] '' @ payload))
                    (s1\<lparr>gathered_info := store E tname payload (gathered_info s1)\<rparr>)))"

subsection \<open>The forced answer: lines 398 to 415\<close>

definition labelled :: "env \<Rightarrow> string \<Rightarrow> json \<Rightarrow> string list" where
  "labelled E key v = (if truthy v then [key @ '': '' @ str_of E v] else [])"

definition final_parts :: "env \<Rightarrow> gathered \<Rightarrow> string list" where
  "final_parts E g =
     labelled E ''weather'' (weather g) @ labelled E ''books'' (books g)
     @ labelled E ''joke'' (joke g) @ labelled E ''dog'' (dog g)
     @ labelled E ''trivia'' (trivia g)"

definition budget_apology :: string where
  "budget_apology =
     ''I tried to gather information but encountered some issues. Let me summarize what I have.''"

definition budget_answer :: "env \<Rightarrow> gathered \<Rightarrow> string" where
  "budget_answer E g =
     (let parts = final_parts E g
      in if parts \<noteq> [] then ''Based on what I found:'' @ [CHR 0x0A] @ py_join [CHR 0x0A] parts
         else budget_apology)"

subsection \<open>One step, one message, one session\<close>

definition names_repr :: "env \<Rightarrow> string list \<Rightarrow> string" where
  "names_repr E tool_index = py_repr E (JArray (map JString tool_index))"

definition need_action :: "env \<Rightarrow> string list \<Rightarrow> json" where
  "need_action E tool_index =
     JString (''Need to specify an action. Available: '' @ names_repr E tool_index)"

definition not_found :: "env \<Rightarrow> string list \<Rightarrow> json \<Rightarrow> json" where
  "not_found E tool_index tname =
     JString (''Tool '' @ [CHR 0x27] @ str_of E tname @ [CHR 0x27]
       @ '' not found. Available: '' @ names_repr E tool_index)"

text \<open>The body of \<^verbatim>\<open>for step in range(12)\<close>. The registry \<open>tool_index\<close> is the list of
  its keys. \<^verbatim>\<open>tname not in tool_index\<close> raises a \<^verbatim>\<open>TypeError\<close> on a list or a dictionary,
  which cannot be hashed; no key of the registry equals a value that is not a string.\<close>

definition loop_body ::
    "env \<Rightarrow> world \<Rightarrow> string list \<Rightarrow> string \<Rightarrow> nat \<Rightarrow> state \<Rightarrow> flow \<times> state" where
  "loop_body E W tool_index user step s =
     (let s1 = log_events [DecisionRequested] s
      in case llm_json E (post_chat W (history s)) of
           Inl e \<Rightarrow> (Crashed e, s1)
         | Inr decision \<Rightarrow>
             if dict_get decision ''action'' JNull = JString ''final''
             then final_branch E W user decision s1
             else
               (let tname = dict_get decision ''action'' JNull;
                    args = dict_get decision ''args'' (JObject []);
                    unknown = (Continue, append_turn Assistant (not_found E tool_index tname) s1)
                in if \<not> truthy tname
                   then (Continue, append_turn Assistant (need_action E tool_index) s1)
                   else
                     (case tname of
                        JArray xs \<Rightarrow> (Crashed TypeError, s1)
                      | JObject kvs \<Rightarrow> (Crashed TypeError, s1)
                      | JString name \<Rightarrow>
                          if name \<notin> set tool_index then unknown
                          else
                            (let s2 = dispatch E W name args s1
                             in if 11 \<le> step
                                then (Break,
                                      append_turn Assistant
                                        (JString (budget_answer E (gathered_info s2))) s2)
                                else (Continue, s2))
                      | _ \<Rightarrow> unknown)))"

text \<open>The \<^verbatim>\<open>for\<close> loop over the given step numbers: it ends at a \<^verbatim>\<open>break\<close>, at an
  exception, or when the numbers run out (then the flow is \<open>Continue\<close>).\<close>

fun run_steps ::
    "env \<Rightarrow> world \<Rightarrow> string list \<Rightarrow> string \<Rightarrow> nat list \<Rightarrow> state \<Rightarrow> flow \<times> state" where
  "run_steps E W tool_index user [] s = (Continue, s)"
| "run_steps E W tool_index user (step # steps) s =
     (case loop_body E W tool_index user step s of
        (Continue, s') \<Rightarrow> run_steps E W tool_index user steps s'
      | r \<Rightarrow> r)"

definition handle_message :: "env \<Rightarrow> world \<Rightarrow> string list \<Rightarrow> string \<Rightarrow> state \<Rightarrow> flow \<times> state" where
  "handle_message E W tool_index user s =
     run_steps E W tool_index user [0..<12]
       ((append_turn User (JString user) s)\<lparr>gathered_info := no_info\<rparr>)"

definition is_exit :: "string \<Rightarrow> bool" where
  "is_exit user =
     (user = [] \<or> py_lower user = ''exit'' \<or> py_lower user = ''quit'' \<or> py_lower user = ''q'')"

text \<open>The \<^verbatim>\<open>while True\<close> loop over the lines that \<^verbatim>\<open>input()\<close> returns. The session ends
  when the user leaves, when the input ends (\<^verbatim>\<open>input()\<close> raises \<^verbatim>\<open>EOFError\<close>), or when a
  step raises an exception, which nothing in \<^verbatim>\<open>main\<close> catches.\<close>

datatype ending = Quit | EndOfInput | Died exn

fun session_loop ::
    "env \<Rightarrow> world \<Rightarrow> string list \<Rightarrow> string list \<Rightarrow> state \<Rightarrow> ending \<times> state" where
  "session_loop E W tool_index [] s = (EndOfInput, s)"
| "session_loop E W tool_index (line # rest) s =
     (let user = py_strip line
      in if is_exit user then (Quit, s)
         else (case handle_message E W tool_index user s of
                 (Crashed e, s') \<Rightarrow> (Died e, s')
               | (_, s') \<Rightarrow> session_loop E W tool_index rest s'))"

definition initial_state :: "string \<Rightarrow> state" where
  "initial_state system_prompt =
     \<lparr>history = [(System, JString system_prompt)], gathered_info = no_info, events = []\<rparr>"

definition run_session ::
    "env \<Rightarrow> world \<Rightarrow> string list \<Rightarrow> string \<Rightarrow> string list \<Rightarrow> ending \<times> state" where
  "run_session E W tool_index system_prompt lines =
     session_loop E W tool_index lines (initial_state system_prompt)"


section \<open>Sample values of the parameters\<close>

text \<open>
  Concrete values for the parameters, to run the model on. \<open>sample_repr\<close> writes what
  Python writes for \<^verbatim>\<open>None\<close>, booleans, integers, strings without quotes, backslashes or
  control characters, and the lists and dictionaries of these (a float is not written out).
  \<open>sample_loads\<close> knows the JSON texts of \<open>sample_texts\<close> and the chat completion bodies
  that carry the texts of \<open>sample_replies\<close> as their content; on a text of more than 4300
  digits it raises \<^verbatim>\<open>ValueError\<close>, and on the texts used below that are not JSON it raises
  \<^verbatim>\<open>JSONDecodeError\<close>, as \<^verbatim>\<open>json.loads\<close> does.
\<close>

fun show_nat :: "nat \<Rightarrow> string" where
  "show_nat n =
     (if n < 10 then [char_of (48 + n)] else show_nat (n div 10) @ [char_of (48 + n mod 10)])"

declare show_nat.simps [simp del]

definition show_int :: "int \<Rightarrow> string" where
  "show_int i = (if i < 0 then ''-'' @ show_nat (nat (- i)) else show_nat (nat i))"

fun sample_repr :: "json \<Rightarrow> string" where
  "sample_repr JNull = ''None''"
| "sample_repr (JBool b) = (if b then ''True'' else ''False'')"
| "sample_repr (JInt n) = show_int n"
| "sample_repr (JFloat f) = ''<float>''"
| "sample_repr (JString s) = [CHR 0x27] @ s @ [CHR 0x27]"
| "sample_repr (JArray xs) = ''['' @ py_join '', '' (map sample_repr xs) @ '']''"
| "sample_repr (JObject kvs) =
     ''{'' @ py_join '', ''
       (map (\<lambda>kv. [CHR 0x27] @ fst kv @ [CHR 0x27] @ '': '' @ sample_repr (snd kv)) kvs) @ ''}''"

definition json_escape :: "string \<Rightarrow> string" where
  "json_escape s =
     concat (map (\<lambda>c. if c = CHR 0x22 \<or> c = CHR 0x5C then [CHR 0x5C, c] else [c]) s)"

definition chat_body :: "string \<Rightarrow> string" where
  \<open>chat_body raw = ''{"choices":[{"message":{"content":"'' @ json_escape raw @ ''"}}]}''\<close>

definition chat_value :: "string \<Rightarrow> json" where
  "chat_value raw =
     JObject [(''choices'', JArray [JObject [(''message'', JObject [(''content'', JString raw)])]])]"

definition long_answer :: string where
  "long_answer = replicate 151 CHR ''a''"

definition longer_answer :: string where
  "longer_answer = replicate 200 CHR ''b''"

definition unknown_reply :: string where
  \<open>unknown_reply = ''{"action":"nonexistent_tool","args":{}}''\<close>

definition list_name_reply :: string where
  \<open>list_name_reply = ''{"action":["get_weather"],"args":{}}''\<close>

definition number_answer_reply :: string where
  \<open>number_answer_reply = ''{"action":"final","answer":42}''\<close>

definition joke_reply :: string where
  \<open>joke_reply = ''{"action":"random_joke","args":{}}''\<close>

definition sample_texts :: "(string \<times> json) list" where
  \<open>sample_texts =
     [(''{}'', JObject []),
      (''{"action":"final","answer":42}'',
         JObject [(''action'', JString ''final''), (''answer'', JInt 42)]),
      (''{"action":"final","answer":""}'',
         JObject [(''action'', JString ''final''), (''answer'', JString [])]),
      (''[{"action":"final","answer":""}]'',
         JArray [JObject [(''action'', JString ''final''), (''answer'', JString [])]]),
      (''{"action":"final","answer":"Done."}'',
         JObject [(''action'', JString ''final''), (''answer'', JString ''Done.'')]),
      (''{"action":"final","answer":"'' @ long_answer @ ''"}'',
         JObject [(''action'', JString ''final''), (''answer'', JString long_answer)]),
      (''{"action":"nonexistent_tool","args":{}}'',
         JObject [(''action'', JString ''nonexistent_tool''), (''args'', JObject [])]),
      (''{"action":["get_weather"],"args":{}}'',
         JObject [(''action'', JArray [JString ''get_weather'']), (''args'', JObject [])]),
      (''{"action":"random_joke","args":{}}'',
         JObject [(''action'', JString ''random_joke''), (''args'', JObject [])]),
      (''{"joke":"Knock knock"}'', JObject [(''joke'', JString ''Knock knock'')])]\<close>

definition sample_replies :: "string list" where
  \<open>sample_replies =
     [''{"action":"final","answer":42}'',
      ''{"action":"final","answer":"Done."}'',
      ''{"action":"final","answer":"'' @ long_answer @ ''"}'',
      ''{"action":"nonexistent_tool","args":{}}'',
      ''{"action":["get_weather"],"args":{}}'',
      ''{"action":"random_joke","args":{}}'',
      '' Shorter. '']\<close>

definition is_digit :: "char \<Rightarrow> bool" where
  "is_digit c = (48 \<le> (of_char c :: nat) \<and> (of_char c :: nat) \<le> 57)"

definition sample_loads :: "string \<Rightarrow> loads_result" where
  "sample_loads text =
     (if 4300 < length text \<and> list_all is_digit text then Raises ValueError
      else (case map_of (sample_texts @ map (\<lambda>raw. (chat_body raw, chat_value raw)) sample_replies)
                   text of
              Some v \<Rightarrow> Parsed v
            | None \<Rightarrow> JSONDecodeError))"

definition sample_env :: env where
  "sample_env =
     \<lparr>json_loads = sample_loads, py_repr = sample_repr, coord_search = (\<lambda>content. None),
      emoji_weather = ''(sun)'', emoji_books = ''(books)'', emoji_joke = ''(smile)'',
      emoji_dog = ''(dog)''\<rparr>"

text \<open>A world in which the decision model always replies with the same text, the review
  service cannot be reached, and every tool call has the same outcome.\<close>

definition scripted :: "string \<Rightarrow> tool_outcome \<Rightarrow> world" where
  "scripted raw outcome =
     \<lparr>post_chat = (\<lambda>messages. Response 200 (chat_body raw)),
      post_review = (\<lambda>messages answer. ConnFailed ''unreachable''),
      call_tool = (\<lambda>messages tname args. outcome)\<rparr>"

text \<open>A world in which the decision model asks for a joke after a user turn and gives its
  final answer after any other turn, and the joke tool answers.\<close>

definition joke_world :: world where
  \<open>joke_world =
     \<lparr>post_chat = (\<lambda>messages.
        if fst (last messages) = User
        then Response 200 (chat_body ''{"action":"random_joke","args":{}}'')
        else Response 200 (chat_body ''{"action":"final","answer":"Done."}'')),
      post_review = (\<lambda>messages answer. ConnFailed ''unreachable''),
      call_tool = (\<lambda>messages tname args.
        Returned [TextContent ''{"joke":"Knock knock"}''] [])\<rparr>\<close>

text \<open>A world in which the review service replies with a correction.\<close>

definition reviewing_world :: world where
  "reviewing_world =
     \<lparr>post_chat = (\<lambda>messages. ConnFailed ''unreachable''),
      post_review = (\<lambda>messages answer. Response 200 (chat_body '' Shorter. '')),
      call_tool = (\<lambda>messages tname args. Raised ''unreachable'')\<rparr>"

definition sample_tools :: "string list" where
  "sample_tools = [''get_weather'', ''random_joke'']"

section \<open>The decoder as the specification describes it\<close>

text \<open>A well-formed action in the words of the specification: a Final that carries a
  string answer, or a tool call whose \<open>args\<close> is a mapping.\<close>

definition is_string :: "json \<Rightarrow> bool" where
  "is_string v = (case v of JString s \<Rightarrow> True | _ \<Rightarrow> False)"

definition is_mapping :: "json \<Rightarrow> bool" where
  "is_mapping v = (case v of JObject kvs \<Rightarrow> True | _ \<Rightarrow> False)"

definition wellformed_action :: "pydict \<Rightarrow> bool" where
  "wellformed_action d =
     (if map_of d ''action'' = Some (JString ''final'')
      then (case map_of d ''answer'' of Some v \<Rightarrow> is_string v | None \<Rightarrow> False)
      else has_key d ''action''
           \<and> (case map_of d ''args'' of Some v \<Rightarrow> is_mapping v | None \<Rightarrow> False))"

text \<open>The weaker shape that the code gives for a top-level object: the answer of a Final
  is there, of whatever type.\<close>

definition carries_answer_or_args :: "pydict \<Rightarrow> bool" where
  "carries_answer_or_args d =
     (if map_of d ''action'' = Some (JString ''final'')
      then has_key d ''answer''
      else has_key d ''action''
           \<and> (case map_of d ''args'' of Some v \<Rightarrow> is_mapping v | None \<Rightarrow> False))"

text \<open>The list branch in the words of the specification: the first qualifying element
  is decoded as a top-level object is.\<close>

definition decode_list_spec :: "env \<Rightarrow> json list \<Rightarrow> pydict" where
  "decode_list_spec E parsed =
     (case first_action parsed of
        Some item \<Rightarrow> decode_dict E item
      | None \<Rightarrow>
          (case parsed of
             x # _ \<Rightarrow> final (JString (str_of E x))
           | [] \<Rightarrow> final (JString ''I received an empty response.'')))"

text \<open>The first known tool name that occurs in the lower-cased text, and the result of
  the scan for tool names when the coordinate branch plays no part.\<close>

definition first_named :: "string \<Rightarrow> string option" where
  "first_named content = find (\<lambda>tool_name. str_in tool_name (py_lower content)) known_tools"

definition heuristic_result :: "string \<Rightarrow> pydict" where
  "heuristic_result content =
     (case first_named content of
        None \<Rightarrow> final (JString content)
      | Some t \<Rightarrow>
          if t = ''book_recs'' \<and> str_in ''mystery'' (py_lower content)
          then tool_call (JString ''book_recs'')
                 (JObject [(''topic'', JString ''mystery''), (''limit'', JInt 2)])
          else tool_call (JString t) (JObject []))"


section \<open>The loop as the specification describes it\<close>

text \<open>The second history extends the first by turns that are not system turns.\<close>

definition extends :: "turn list \<Rightarrow> turn list \<Rightarrow> bool" where
  "extends h h' = (prefix h h' \<and> System \<notin> set (map fst (drop (length h) h')))"

definition system_turns :: "turn list \<Rightarrow> nat" where
  "system_turns h = length (filter (\<lambda>t. fst t = System) h)"

fun consecutive_system :: "turn list \<Rightarrow> bool" where
  "consecutive_system (a # b # ts) =
     ((fst a = System \<and> fst b = System) \<or> consecutive_system (b # ts))"
| "consecutive_system _ = False"

text \<open>The names of the tools invoked, and the number of decision requests, in a log.\<close>

fun tools_invoked :: "event list \<Rightarrow> string list" where
  "tools_invoked [] = []"
| "tools_invoked (ToolInvoked name args # evs) = name # tools_invoked evs"
| "tools_invoked (_ # evs) = tools_invoked evs"

definition decisions :: "event list \<Rightarrow> nat" where
  "decisions evs = length (filter (\<lambda>e. e = DecisionRequested) evs)"

text \<open>A tool name that is missing or empty (not truthy), or that is not a name of the
  registry. A value that Python can hash: all but lists and dictionaries.\<close>

definition missing_or_unknown :: "string list \<Rightarrow> json \<Rightarrow> bool" where
  "missing_or_unknown tool_index tname =
     (\<not> (truthy tname \<and> tname \<in> set (map JString tool_index)))"

definition hashable :: "json \<Rightarrow> bool" where
  "hashable v = (case v of JArray xs \<Rightarrow> False | JObject kvs \<Rightarrow> False | _ \<Rightarrow> True)"

definition rejection_text :: "env \<Rightarrow> json \<Rightarrow> string" where
  "rejection_text E tname =
     (if \<not> truthy tname then ''Need to specify an action. Available: ''
      else ''Tool '' @ [CHR 0x27] @ str_of E tname @ [CHR 0x27] @ '' not found. Available: '')"

text \<open>One of the four categories that the merged answer draws on is populated.\<close>

definition any_merged :: "gathered \<Rightarrow> bool" where
  "any_merged g = (truthy (weather g) \<or> truthy (books g) \<or> truthy (joke g) \<or> truthy (dog g))"

text \<open>A review request that fails: no connection, an error status, a body on which the
  parser raises or that has not the expected shape.\<close>

definition review_failed :: "env \<Rightarrow> http_outcome \<Rightarrow> bool" where
  "review_failed E outcome =
     (case outcome of
        ConnFailed msg \<Rightarrow> True
      | Response status_code body \<Rightarrow>
          (400 \<le> status_code \<and> status_code < 600)
          \<or> (case json_loads E body of
                Parsed result \<Rightarrow>
                  (case chat_content result of
                     Inr (JString content) \<Rightarrow> False
                   | _ \<Rightarrow> True)
              | _ \<Rightarrow> True))"

text \<open>The turn that rejects the tool name of \<open>unknown_reply\<close> against \<open>sample_tools\<close>.\<close>

definition unknown_turn :: turn where
  "unknown_turn = (Assistant, JString
     (''Tool '' @ [CHR 0x27] @ ''nonexistent_tool'' @ [CHR 0x27]
      @ '' not found. Available: ['' @ [CHR 0x27] @ ''get_weather'' @ [CHR 0x27]
      @ '', '' @ [CHR 0x27] @ ''random_joke'' @ [CHR 0x27] @ '']''))"

text \<open>An exception raised by a tool call, as the \<^verbatim>\<open>except Exception\<close> of the dispatch sees
  it: raised by \<^verbatim>\<open>call_tool\<close>, or by reading the text of a first item that has none.\<close>

definition tool_raises :: "tool_outcome \<Rightarrow> string option" where
  "tool_raises outcome =
     (case outcome of
        Raised details \<Rightarrow> Some details
      | Returned (NoText details # _) dump \<Rightarrow> Some details
      | _ \<Rightarrow> None)"

section \<open>The decoder\<close>

lemma has_key_final: "has_key (final a) ''action''"
  by (simp add: final_def has_key_def)

lemma has_key_tool_call: "has_key (tool_call n a) ''action''"
  by (simp add: tool_call_def has_key_def)

lemma first_action_has_key: "first_action items = Some d \<Longrightarrow> has_key d ''action''"
  by (induction items rule: first_action.induct) (auto split: if_splits)

lemma decode_list_has_action: "has_key (decode_list E items) ''action''"
  by (auto simp: decode_list_def has_key_final first_action_has_key
      split: option.splits list.splits)

lemma decode_dict_has_action: "has_key (decode_dict E d) ''action''"
  by (simp add: decode_dict_def Let_def has_key_final has_key_tool_call)

lemma decode_parsed_has_action: "has_key (decode_parsed E v) ''action''"
  by (cases v)
    (simp_all add: decode_parsed_def has_key_final decode_list_has_action decode_dict_has_action)

lemma reparse_has_action: "reparse E content = Some d \<Longrightarrow> has_key d ''action''"
  by (auto simp: reparse_def
      split: option.splits loads_result.splits json.splits list.splits if_splits)

lemma heuristic_call_has_action: "has_key (heuristic_call E content t) ''action''"
  by (auto simp: heuristic_call_def has_key_tool_call
      split: option.splits prod.splits bool.splits)

lemma scan_tools_has_action: "scan_tools E content ts = Some d \<Longrightarrow> has_key d ''action''"
  by (induction ts) (auto simp: heuristic_call_has_action split: if_splits)

lemma decode_fallback_has_action: "has_key (decode_fallback E content) ''action''"
  by (auto simp: decode_fallback_def has_key_final reparse_has_action scan_tools_has_action
      split: option.splits)

lemma decode_dict_carries: "carries_answer_or_args (decode_dict E d)"
  by (auto simp: decode_dict_def Let_def carries_answer_or_args_def final_def tool_call_def
      has_key_def is_mapping_def split: json.splits)

lemma decode_has_action: "decode E raw = Inr d \<Longrightarrow> has_key d ''action''"
  by (auto simp: decode_def Let_def decode_parsed_has_action decode_fallback_has_action
      split: loads_result.splits)

lemma decode_object_carries:
  "json_loads E (clean raw) = Parsed (JObject d) \<Longrightarrow>
   \<exists>r. decode E raw = Inr r \<and> carries_answer_or_args r"
  by (simp add: decode_def decode_parsed_def decode_dict_carries)

text \<open>On the fallback path proper (no action found by the second parse) the result is
  well-formed.\<close>

lemma fallback_wellformed:
  assumes "json_loads E (clean raw) = JSONDecodeError" and "reparse E (clean raw) = None"
  shows "\<exists>r. decode E raw = Inr r \<and> wellformed_action r"
proof -
  have f: "wellformed_action (final (JString c))" for c
    by (simp add: wellformed_action_def final_def is_string_def)
  have h: "t \<noteq> ''final'' \<Longrightarrow> wellformed_action (heuristic_call E c t)" for c t
    by (auto simp: heuristic_call_def wellformed_action_def tool_call_def has_key_def
        is_mapping_def split: option.splits prod.splits bool.splits)
  have s: "''final'' \<notin> set ts \<Longrightarrow> scan_tools E c ts = Some d \<Longrightarrow> wellformed_action d"
    for c ts d
    by (induction ts) (auto simp: h split: if_splits)
  have k: "''final'' \<notin> set known_tools"
    by (simp add: known_tools_def)
  show ?thesis
    using assms s [OF k]
    by (auto simp: decode_def decode_fallback_def Let_def f split: option.splits)
qed

text \<open>An exception of the parser other than \<^verbatim>\<open>JSONDecodeError\<close> leaves the decoder.\<close>

lemma decode_raises: "json_loads E (clean raw) = Raises e \<Longrightarrow> decode E raw = Inl e"
  by (simp add: decode_def)

lemma py_remove_absent: "c \<notin> set s \<Longrightarrow> py_remove (c # old) s = s"
  by (induction s) (simp_all add: prefix_Cons)

lemma many_digits_clean: "clean (replicate n CHR ''1'') = replicate n CHR ''1''"
proof -
  have "dropWhile is_space (replicate n CHR ''1'') = replicate n CHR ''1''"
    by (cases n) (simp_all add: is_space_def)
  then show ?thesis
    by (simp add: clean_def py_remove_absent py_strip_def)
qed

lemma many_digits_raise: "sample_loads (replicate 4301 CHR ''1'') = Raises ValueError"
  by (simp add: sample_loads_def list_all_iff is_digit_def)

lemma number_answer_decoded:
  "decode sample_env number_answer_reply = Inr (final (JInt 42))"
  by code_simp

lemma number_answer_step:
  "llm_json sample_env (Response 200 (chat_body number_answer_reply)) = Inr (final (JInt 42))"
  by code_simp

text \<open>
  C1. The decoding step is to return a well-formed action for every raw text and never
  to raise. The code misses both. On \<^verbatim>\<open>{"action":"final","answer":42}\<close> the check of the
  answer (\<^verbatim>\<open>if not answer\<close>, under the comment that the final answer is to have the proper
  format) lets the number through: the Final carries no string, and \<^verbatim>\<open>len(answer)\<close> in
  \<^verbatim>\<open>main\<close> then raises a \<^verbatim>\<open>TypeError\<close> that ends the session. On a text of 4301 digits
  \<^verbatim>\<open>json.loads\<close> raises a plain \<^verbatim>\<open>ValueError\<close>, which neither handler catches: it leaves
  the decoder.
\<close>

theorem decoder_not_wellformed:
  "decode sample_env number_answer_reply = Inr (final (JInt 42))
   \<and> \<not> wellformed_action (final (JInt 42))
   \<and> loop_body sample_env (scripted number_answer_reply (Raised [])) sample_tools ''hi'' 0
       (initial_state ''p'')
     = (Crashed TypeError,
        \<lparr>history = [(System, JString ''p'')], gathered_info = no_info,
           events = [DecisionRequested]\<rparr>)
   \<and> decode sample_env (replicate 4301 CHR ''1'') = Inl ValueError"
proof -
  have a: "\<not> wellformed_action (final (JInt 42))"
    by (simp add: wellformed_action_def final_def is_string_def)
  have b: "loop_body sample_env (scripted number_answer_reply (Raised [])) sample_tools ''hi'' 0
       (initial_state ''p'')
     = (Crashed TypeError,
        \<lparr>history = [(System, JString ''p'')], gathered_info = no_info,
           events = [DecisionRequested]\<rparr>)"
    by (simp add: loop_body_def scripted_def number_answer_step final_def dict_get_def
        final_branch_def combine_answer_def any_gathered_def initial_state_def no_info_def
        log_events_def)
  have c: "decode sample_env (replicate 4301 CHR ''1'') = Inl ValueError"
    by (rule decode_raises) (simp add: many_digits_clean sample_env_def many_digits_raise)
  show ?thesis
    using a b c by (simp add: number_answer_decoded)
qed

subsection \<open>A list\<close>

lemma decode_list_returns_item:
  "first_action parsed = Some item \<Longrightarrow> decode_list E parsed = item"
  by (simp add: decode_list_def)

lemma decode_list_no_action:
  "first_action parsed = None \<Longrightarrow> decode_list E parsed = decode_list_spec E parsed"
  by (simp add: decode_list_def decode_list_spec_def)

text \<open>
  C3. For a list the specification decodes the first element that is an object with an
  \<^verbatim>\<open>"action"\<close> key as it decodes a top-level object. The code returns the element as it
  is (\<open>decode_list_returns_item\<close>): on \<^verbatim>\<open>[{"action":"final","answer":""}]\<close> the answer stays
  empty, where the decoding of the element gives the fallback answer. The two other cases
  of the list branch are as specified (\<open>decode_list_no_action\<close>).
\<close>

theorem list_element_not_normalised:
  \<open>decode sample_env ''[{"action":"final","answer":""}]''
     = Inr [(''action'', JString ''final''), (''answer'', JString [])]
   \<and> decode_list_spec sample_env
       [JObject [(''action'', JString ''final''), (''answer'', JString [])]]
     = final (JString ''I have gathered the information you requested.'')\<close>
  by code_simp

subsection \<open>The fallback path\<close>

lemma str_in_sublist: "str_in sub s = sublist sub s"
  by (induction s) (simp_all add: sublist_Cons_right)

lemma weather_in_get_weather:
  assumes "str_in ''get_weather'' s"
  shows "str_in ''weather'' s"
proof -
  from assms have "sublist ''get_weather'' s" by (simp add: str_in_sublist)
  moreover have "sublist ''weather'' (''get_'' @ ''weather'')" by (rule sublist_append_leftI)
  ultimately have "sublist ''weather'' s" by (simp add: sublist_order.order.trans)
  then show ?thesis by (simp add: str_in_sublist)
qed

lemma scan_tools_find:
  "scan_tools E content ts
   = map_option (heuristic_call E content) (find (\<lambda>t. str_in t (py_lower content)) ts)"
  by (induction ts) simp_all

lemma heuristic_call_not_weather:
  "t \<noteq> ''get_weather'' \<Longrightarrow> heuristic_call E content t =
     (if t = ''book_recs'' \<and> str_in ''mystery'' (py_lower content)
      then tool_call (JString ''book_recs'')
             (JObject [(''topic'', JString ''mystery''), (''limit'', JInt 2)])
      else tool_call (JString t) (JObject []))"
  by (simp add: heuristic_call_def split: option.splits prod.splits)

text \<open>The scan never reaches the name \<^verbatim>\<open>get_weather\<close>: a text that holds it holds
  \<^verbatim>\<open>weather\<close> and has been taken as a direct answer before.\<close>

lemma get_weather_taken_as_answer:
  assumes "json_loads E (clean raw) = JSONDecodeError" and "reparse E (clean raw) = None"
    and "str_in ''get_weather'' (py_lower (clean raw))"
  shows "decode E raw = Inr (final (JString (clean raw)))"
proof -
  from assms(3) have "looks_like_answer (clean raw)"
    by (simp add: looks_like_answer_def weather_in_get_weather)
  with assms(1,2) show ?thesis by (simp add: decode_def decode_fallback_def Let_def)
qed

text \<open>
  C4 as stated fails: in the fallback path a text that names a known tool gives a Final,
  not a tool call, when it also holds one of the words \<^verbatim>\<open>weather\<close>, \<^verbatim>\<open>temperature\<close>,
  \<^verbatim>\<open>answer\<close>.
\<close>

theorem tool_name_ignored_counterexample:
  "json_loads sample_env (clean ''random_joke is my answer'') = JSONDecodeError
   \<and> reparse sample_env (clean ''random_joke is my answer'') = None
   \<and> first_named ''random_joke is my answer'' = Some ''random_joke''
   \<and> decode sample_env ''random_joke is my answer''
       = Inr (final (JString ''random_joke is my answer''))"
  by code_simp

text \<open>
  C4, amended. In the fallback path (the text does not parse and the embedded JSON, if
  any, gives no action), with the text cleaned of code fences and lower-cased for the
  tests: when it holds none of the words \<^verbatim>\<open>weather\<close>, \<^verbatim>\<open>temperature\<close>, \<^verbatim>\<open>answer\<close>, the
  result is a tool call for the first known tool name that occurs in it, with the
  arguments \<^verbatim>\<open>{topic: mystery, limit: 2}\<close> for \<^verbatim>\<open>book_recs\<close> when \<^verbatim>\<open>mystery\<close> occurs and no
  arguments otherwise, and a Final with the entire text when no tool name occurs; when it
  holds \<^verbatim>\<open>temperature\<close> or \<^verbatim>\<open>answer\<close>, the result is a Final with the entire text.
\<close>

theorem fallback_heuristics:
  assumes "json_loads E (clean raw) = JSONDecodeError" and "reparse E (clean raw) = None"
  shows "(\<not> looks_like_answer (clean raw) \<longrightarrow> decode E raw = Inr (heuristic_result (clean raw)))
    \<and> (str_in ''temperature'' (py_lower (clean raw)) \<or> str_in ''answer'' (py_lower (clean raw))
        \<longrightarrow> decode E raw = Inr (final (JString (clean raw))))"
proof (intro conjI impI)
  assume no: "\<not> looks_like_answer (clean raw)"
  have dec: "decode E raw =
      Inr (case scan_tools E (clean raw) known_tools of
             Some d \<Rightarrow> d
           | None \<Rightarrow> final (JString (clean raw)))"
    using assms no by (simp add: decode_def decode_fallback_def Let_def)
  show "decode E raw = Inr (heuristic_result (clean raw))"
  proof (cases "first_named (clean raw)")
    case None
    then show ?thesis by (simp add: dec scan_tools_find heuristic_result_def first_named_def)
  next
    case (Some t)
    then have "str_in t (py_lower (clean raw))"
      by (auto simp: first_named_def find_Some_iff)
    with no have "t \<noteq> ''get_weather''"
      by (auto simp: looks_like_answer_def dest: weather_in_get_weather)
    with Some show ?thesis
      by (simp add: dec scan_tools_find heuristic_result_def first_named_def
          heuristic_call_not_weather)
  qed
next
  assume "str_in ''temperature'' (py_lower (clean raw)) \<or> str_in ''answer'' (py_lower (clean raw))"
  then have "looks_like_answer (clean raw)" by (auto simp: looks_like_answer_def)
  then show "decode E raw = Inr (final (JString (clean raw)))"
    using assms by (simp add: decode_def decode_fallback_def Let_def)
qed

theorem fallback_heuristics_witness:
  "json_loads sample_env (clean ''I will call random_joke now'') = JSONDecodeError
   \<and> reparse sample_env (clean ''I will call random_joke now'') = None
   \<and> \<not> looks_like_answer (clean ''I will call random_joke now'')
   \<and> decode sample_env ''I will call random_joke now''
       = Inr (tool_call (JString ''random_joke'') (JObject []))
   \<and> json_loads sample_env (clean ''book_recs, that is my answer'') = JSONDecodeError
   \<and> reparse sample_env (clean ''book_recs, that is my answer'') = None
   \<and> str_in ''answer'' (py_lower (clean ''book_recs, that is my answer''))
   \<and> decode sample_env ''book_recs, that is my answer''
       = Inr (final (JString ''book_recs, that is my answer''))"
proof -
  have a1: "json_loads sample_env (clean ''I will call random_joke now'') = JSONDecodeError"
    by code_simp
  have a2: "reparse sample_env (clean ''I will call random_joke now'') = None"
    by code_simp
  have a3: "\<not> looks_like_answer (clean ''I will call random_joke now'')"
    by code_simp
  have a4: "heuristic_result (clean ''I will call random_joke now'')
      = tool_call (JString ''random_joke'') (JObject [])"
    by code_simp
  have b1: "json_loads sample_env (clean ''book_recs, that is my answer'') = JSONDecodeError"
    by code_simp
  have b2: "reparse sample_env (clean ''book_recs, that is my answer'') = None"
    by code_simp
  have b3: "str_in ''answer'' (py_lower (clean ''book_recs, that is my answer''))"
    by code_simp
  have b4: "clean ''book_recs, that is my answer'' = ''book_recs, that is my answer''"
    by code_simp
  show ?thesis
    using a1 a2 a3 a4 b1 b2 b3 b4
      fallback_heuristics [OF a1 a2] fallback_heuristics [OF b1 b2]
    by simp
qed

section \<open>The decision call fails\<close>

lemma llm_json_connection_failure:
  "llm_json E (ConnFailed msg) = Inr connection_apology"
  by (simp add: llm_json_def)

lemma llm_json_status_failure:
  "status_code \<noteq> 200 \<Longrightarrow> llm_json E (Response status_code body) = Inr status_apology"
  by (simp add: llm_json_def)

lemma sample_loads_empty_object: \<open>sample_loads ''{}'' = Parsed (JObject [])\<close>
  by (simp add: sample_loads_def sample_texts_def)

text \<open>
  C5. A failed decision call gives an apology: this holds for a status other than 200
  and for a connection error (the two lemmas above), but not for a reply of status 200
  whose body lacks the expected shape. On the body \<^verbatim>\<open>{}\<close> the lookup of \<^verbatim>\<open>"choices"\<close>
  raises a \<^verbatim>\<open>KeyError\<close>, which the handler of \<^verbatim>\<open>RequestException\<close> does not catch: the
  exception leaves \<^verbatim>\<open>llm_json\<close>.
\<close>

theorem llm_json_unexpected_shape_escapes:
  \<open>llm_json sample_env (Response 200 ''{}'') = Inl KeyError\<close>
  by (simp add: llm_json_def sample_env_def sample_loads_empty_object chat_content_def
      and_then_def)

text \<open>Nothing in the loop catches the exception: the step, and with it the session, ends.\<close>

lemma loop_body_crash:
  "llm_json E (post_chat W (history s)) = Inl e \<Longrightarrow>
   loop_body E W tool_index user step s = (Crashed e, log_events [DecisionRequested] s)"
  by (simp add: loop_body_def)

section \<open>A tool call raises\<close>

lemma dispatch_raises:
  assumes "tool_raises (call_tool W (history s) tname args) = Some details"
  shows "dispatch E W tname args s =
     s\<lparr>history := history s @ [(Assistant, JString (''Error with '' @ tname @ '': '' @ details))],
       events := events s @ [ToolInvoked tname args]\<rparr>"
  using assms
  by (auto simp: dispatch_def tool_raises_def payload_of_def append_turn_def log_events_def
      error_with_def split: tool_outcome.splits list.splits content_item.splits)

lemma joke_reply_decoded:
  "llm_json sample_env (Response 200 (chat_body joke_reply))
     = Inr [(''action'', JString ''random_joke''), (''args'', JObject [])]"
  by code_simp

text \<open>
  C10 as stated fails: on the twelfth step the turn with the error message is followed,
  in the same step, by the forced final answer, so the step appends two assistant turns.
\<close>

theorem raising_tool_last_step_counterexample:
  "tool_raises (call_tool (scripted joke_reply (Raised ''timed out''))
       (history (initial_state ''p'')) ''random_joke'' (JObject [])) = Some ''timed out''
   \<and> loop_body sample_env (scripted joke_reply (Raised ''timed out'')) sample_tools ''hi'' 11
       (initial_state ''p'')
     = (Break,
        \<lparr>history =
           [(System, JString ''p''),
            (Assistant, JString ''Error with random_joke: timed out''),
            (Assistant, JString budget_apology)],
         gathered_info = no_info,
         events = [DecisionRequested, ToolInvoked ''random_joke'' (JObject [])]\<rparr>)"
  by (simp add: loop_body_def scripted_def joke_reply_decoded dict_get_def sample_tools_def
      dispatch_def tool_raises_def append_turn_def log_events_def error_with_def
      initial_state_def budget_answer_def final_parts_def labelled_def no_info_def)

text \<open>
  C10, amended. If the invocation of a registered tool raises an exception, the step
  leaves the gathered-info accumulator as it was and appends the assistant turn
  \<^verbatim>\<open>Error with {name}: {details}\<close>. On the first eleven steps this is the only turn that the
  step appends, and the loop goes on; on the twelfth step the forced final answer, made
  from the unchanged accumulator, follows as a second assistant turn and the loop ends.
\<close>

theorem raising_tool_step:
  assumes "llm_json E (post_chat W (history s)) = Inr decision"
    and "dict_get decision ''action'' JNull = JString name"
    and "name \<noteq> ''final''" and "name \<noteq> []" and "name \<in> set tool_index"
    and "tool_raises (call_tool W (history s) name (dict_get decision ''args'' (JObject [])))
      = Some details"
  shows "loop_body E W tool_index user step s =
     (if 11 \<le> step
      then (Break,
            s\<lparr>history := history s @
                 [(Assistant, JString (''Error with '' @ name @ '': '' @ details)),
                  (Assistant, JString (budget_answer E (gathered_info s)))],
              events := events s @
                 [DecisionRequested, ToolInvoked name (dict_get decision ''args'' (JObject []))]\<rparr>)
      else (Continue,
            s\<lparr>history := history s @
                 [(Assistant, JString (''Error with '' @ name @ '': '' @ details))],
              events := events s @
                 [DecisionRequested, ToolInvoked name (dict_get decision ''args'' (JObject []))]\<rparr>))"
proof -
  let ?args = "dict_get decision ''args'' (JObject [])"
  let ?s1 = "s\<lparr>events := events s @ [DecisionRequested]\<rparr>"
  have "tool_raises (call_tool W (history ?s1) name ?args) = Some details"
    using assms(6) by simp
  then have "dispatch E W name ?args ?s1 =
     ?s1\<lparr>history := history ?s1 @
            [(Assistant, JString (''Error with '' @ name @ '': '' @ details))],
          events := events ?s1 @ [ToolInvoked name ?args]\<rparr>"
    by (rule dispatch_raises)
  then have d: "dispatch E W name ?args ?s1 =
     s\<lparr>history := history s @
            [(Assistant, JString (''Error with '' @ name @ '': '' @ details))],
       events := events s @ [DecisionRequested, ToolInvoked name ?args]\<rparr>"
    by simp
  show ?thesis
    using assms(1-5)
    by (simp add: loop_body_def Let_def log_events_def d append_turn_def)
qed

theorem raising_tool_step_witness:
  "llm_json sample_env
       (post_chat (scripted joke_reply (Raised ''timed out'')) (history (initial_state ''p'')))
     = Inr [(''action'', JString ''random_joke''), (''args'', JObject [])]
   \<and> ''random_joke'' \<in> set sample_tools
   \<and> tool_raises (call_tool (scripted joke_reply (Raised ''timed out''))
        (history (initial_state ''p'')) ''random_joke'' (JObject [])) = Some ''timed out''
   \<and> loop_body sample_env (scripted joke_reply (Raised ''timed out'')) sample_tools ''hi'' 3
       (initial_state ''p'')
     = (Continue,
        \<lparr>history =
           [(System, JString ''p''),
            (Assistant, JString ''Error with random_joke: timed out'')],
         gathered_info = no_info,
         events = [DecisionRequested, ToolInvoked ''random_joke'' (JObject [])]\<rparr>)
   \<and> loop_body sample_env (scripted joke_reply (Raised ''timed out'')) sample_tools ''hi'' 11
       (initial_state ''p'')
     = (Break,
        \<lparr>history =
           [(System, JString ''p''),
            (Assistant, JString ''Error with random_joke: timed out''),
            (Assistant, JString budget_apology)],
         gathered_info = no_info,
         events = [DecisionRequested, ToolInvoked ''random_joke'' (JObject [])]\<rparr>)"
proof -
  have a: "llm_json sample_env
       (post_chat (scripted joke_reply (Raised ''timed out'')) (history (initial_state ''p'')))
     = Inr [(''action'', JString ''random_joke''), (''args'', JObject [])]"
    by (simp add: scripted_def joke_reply_decoded)
  have b: "dict_get [(''action'', JString ''random_joke''), (''args'', JObject [])]
       ''action'' JNull = JString ''random_joke''"
    by (simp add: dict_get_def)
  have c: "''random_joke'' \<noteq> ''final''" "''random_joke'' \<noteq> []"
    by simp_all
  have d: "''random_joke'' \<in> set sample_tools"
    by (simp add: sample_tools_def)
  have e: "tool_raises (call_tool (scripted joke_reply (Raised ''timed out''))
        (history (initial_state ''p''))
        ''random_joke''
        (dict_get [(''action'', JString ''random_joke''), (''args'', JObject [])]
           ''args'' (JObject []))) = Some ''timed out''"
    by (simp add: tool_raises_def scripted_def)
  have f: "budget_answer sample_env (gathered_info (initial_state ''p'')) = budget_apology"
    by (simp add: budget_answer_def final_parts_def labelled_def initial_state_def no_info_def)
  show ?thesis
    using a d e f
      raising_tool_step [OF a b c d e, where user = "''hi''" and step = 3]
      raising_tool_step [OF a b c d e, where user = "''hi''" and step = 11]
    by (simp add: initial_state_def dict_get_def)
qed

section \<open>A final answer\<close>

lemma final_answer_parts_empty: "final_answer_parts E g = [] \<longleftrightarrow> \<not> any_merged g"
  by (simp add: final_answer_parts_def any_merged_def)

lemma any_merged_gathered: "any_merged g \<Longrightarrow> any_gathered g"
  by (auto simp: any_merged_def any_gathered_def)

text \<open>
  C9 as stated fails: with the trivia category alone populated and the three keywords in
  the message, the test \<^verbatim>\<open>any(gathered_info.values())\<close> holds, but the merge has no part
  for trivia and the decoded answer is kept.
\<close>

theorem merge_needs_merged_category_counterexample:
  "any_gathered (no_info\<lparr>trivia := JString ''Which planet is red?''\<rparr>)
   \<and> mentions_all ''weather, a book and a joke please''
   \<and> combine_answer sample_env ''weather, a book and a joke please''
        (no_info\<lparr>trivia := JString ''Which planet is red?''\<rparr>) (JString ''Here you go.'')
      = JString ''Here you go.''"
  by code_simp

text \<open>
  C9, amended. When a Final action is decoded, the combined answer replaces the decoded
  one exactly when at least one of the categories weather, books, joke and dog is
  populated and the user's message holds the words \<^verbatim>\<open>weather\<close>, \<^verbatim>\<open>book\<close> and \<^verbatim>\<open>joke\<close>
  (in any case of letters); it is the header followed by the labelled summaries of the
  populated ones of these four categories. Otherwise the decoded answer is used as it is.
\<close>

theorem combine_answer_cases:
  "combine_answer E user g answer =
     (if any_merged g \<and> mentions_all user
      then JString (plan_header @ py_join [CHR 0x0A, CHR 0x0A] (final_answer_parts E g))
      else answer)"
  using any_merged_gathered [of g]
  by (auto simp: combine_answer_def Let_def final_answer_parts_empty)

theorem combine_answer_cases_witness:
  "combine_answer sample_env ''Weather, a BOOK and a joke please''
     (no_info\<lparr>joke := JString ''Knock knock''\<rparr>) (JString ''Here you go.'')
   = JString (plan_header @ ''(smile) Joke: Knock knock'')
   \<and> combine_answer sample_env ''a joke please''
       (no_info\<lparr>joke := JString ''Knock knock''\<rparr>) (JString ''Here you go.'')
     = JString ''Here you go.''"
proof -
  have a: "any_merged (no_info\<lparr>joke := JString ''Knock knock''\<rparr>)"
    by (simp add: any_merged_def no_info_def)
  have b: "mentions_all ''Weather, a BOOK and a joke please''"
    by code_simp
  have c: "\<not> mentions_all ''a joke please''"
    by code_simp
  have d: "final_answer_parts sample_env (no_info\<lparr>joke := JString ''Knock knock''\<rparr>)
      = [''(smile) Joke: Knock knock'']"
    by code_simp
  show ?thesis
    using a b c d
      combine_answer_cases [of sample_env "''Weather, a BOOK and a joke please''"
        "no_info\<lparr>joke := JString ''Knock knock''\<rparr>" "JString ''Here you go.''"]
      combine_answer_cases [of sample_env "''a joke please''"
        "no_info\<lparr>joke := JString ''Knock knock''\<rparr>" "JString ''Here you go.''"]
    by simp
qed

subsection \<open>Reflection\<close>

lemma lower_looks_good: "py_lower ''looks good'' = ''looks good''"
  by code_simp

lemma review_failed_reply: "review_failed E outcome \<Longrightarrow> review_reply E outcome = ''looks good''"
  by (auto simp: review_failed_def review_reply_def
      split: http_outcome.splits loads_result.splits sum.splits json.splits)

lemma final_branch_string:
  assumes "combine_answer E user (gathered_info s) (dict_get decision ''answer'' (JString []))
      = JString a"
  shows "final_branch E W user decision s =
     (Break,
      s\<lparr>history := history s @
           [(Assistant,
             JString (if 200 \<le> length a
                        \<and> py_lower (review_reply E (post_review W (history s) (JString a)))
                            \<noteq> ''looks good''
                      then review_reply E (post_review W (history s) (JString a)) else a))],
        events := events s @ (if 200 \<le> length a then [ReviewRequested (JString a)] else [])\<rparr>)"
  using assms
  by (simp add: final_branch_def Let_def reflect_with_groq_def and_then_def append_turn_def
      log_events_def lower_looks_good)

text \<open>
  C6 as stated fails: for an answer of 151 characters \<^verbatim>\<open>main\<close> calls \<^verbatim>\<open>reflect_with_groq\<close>,
  which returns the sentinel at once (\<^verbatim>\<open>len(answer) < 200\<close>: skip reflection for short
  answers). No review is requested.
\<close>

theorem no_review_at_151_counterexample:
  "150 < length long_answer
   \<and> final_branch sample_env reviewing_world ''hi'' (final (JString long_answer))
       (initial_state ''p'')
     = (Break, \<lparr>history = [(System, JString ''p''), (Assistant, JString long_answer)],
          gathered_info = no_info, events = []\<rparr>)"
  by code_simp

text \<open>
  C6, amended. For a candidate final answer that is a string, the review is requested
  exactly when the answer has at least 200 characters: \<^verbatim>\<open>main\<close> calls \<^verbatim>\<open>reflect_with_groq\<close>
  when the answer is longer than 150 characters, and \<^verbatim>\<open>reflect_with_groq\<close> returns the
  sentinel without a request when the answer is shorter than 200. When the result is
  \<^verbatim>\<open>looks good\<close> in any case of letters the answer is left unchanged, otherwise the result
  replaces it; a review request that fails gives the sentinel and leaves the answer
  unchanged. One assistant turn with the answer is appended and the loop ends.
\<close>

theorem reflection_cases:
  assumes "combine_answer E user (gathered_info s) (dict_get decision ''answer'' (JString []))
      = JString a"
  shows "final_branch E W user decision s =
     (Break,
      s\<lparr>history := history s @
           [(Assistant,
             JString (if 200 \<le> length a
                        \<and> py_lower (review_reply E (post_review W (history s) (JString a)))
                            \<noteq> ''looks good''
                      then review_reply E (post_review W (history s) (JString a)) else a))],
        events := events s @ (if 200 \<le> length a then [ReviewRequested (JString a)] else [])\<rparr>)
   \<and> (review_failed E (post_review W (history s) (JString a)) \<longrightarrow>
        history (snd (final_branch E W user decision s)) = history s @ [(Assistant, JString a)])"
  using assms
  by (simp add: final_branch_string review_failed_reply lower_looks_good)

theorem reflection_cases_witness:
  "combine_answer sample_env ''hi'' (gathered_info (initial_state ''p''))
       (dict_get (final (JString longer_answer)) ''answer'' (JString []))
     = JString longer_answer
   \<and> final_branch sample_env reviewing_world ''hi'' (final (JString longer_answer))
       (initial_state ''p'')
     = (Break, \<lparr>history = [(System, JString ''p''), (Assistant, JString ''Shorter.'')],
          gathered_info = no_info, events = [ReviewRequested (JString longer_answer)]\<rparr>)
   \<and> review_failed sample_env
       (post_review (scripted [] (Raised [])) (history (initial_state ''p''))
          (JString longer_answer))
   \<and> history (snd (final_branch sample_env (scripted [] (Raised [])) ''hi''
         (final (JString longer_answer)) (initial_state ''p'')))
     = [(System, JString ''p''), (Assistant, JString longer_answer)]"
proof -
  have a: "combine_answer sample_env ''hi'' (gathered_info (initial_state ''p''))
       (dict_get (final (JString longer_answer)) ''answer'' (JString []))
     = JString longer_answer"
    by (simp add: combine_answer_def any_gathered_def initial_state_def no_info_def
        dict_get_def final_def)
  have b: "review_reply sample_env
      (post_review reviewing_world (history (initial_state ''p'')) (JString longer_answer))
     = ''Shorter.''"
    by code_simp
  have c: "py_lower ''Shorter.'' \<noteq> ''looks good''"
    by code_simp
  have d: "review_failed sample_env
       (post_review (scripted [] (Raised [])) (history (initial_state ''p''))
          (JString longer_answer))"
    by (simp add: review_failed_def scripted_def)
  have e: "length longer_answer = 200"
    by (simp add: longer_answer_def)
  have f: "review_reply sample_env
      (post_review (scripted [] (Raised [])) (history (initial_state ''p''))
         (JString longer_answer))
     = ''looks good''"
    by (simp add: review_reply_def scripted_def)
  show ?thesis
    using a b c d e f
      reflection_cases [OF a, of reviewing_world]
      reflection_cases [OF a, of "scripted [] (Raised [])"]
    by (simp add: initial_state_def lower_looks_good)
qed

section \<open>Invariants of the loop\<close>

lemma extends_refl: "extends h h"
  by (simp add: extends_def)

lemma extends_append: "System \<notin> set (map fst ts) \<Longrightarrow> extends h (h @ ts)"
  by (simp add: extends_def)

lemma extends_iff: "extends h h' \<longleftrightarrow> (\<exists>ts. h' = h @ ts \<and> System \<notin> set (map fst ts))"
  by (auto simp: extends_def prefix_def)

lemma extends_trans: "extends h1 h2 \<Longrightarrow> extends h2 h3 \<Longrightarrow> extends h1 h3"
  by (auto simp: extends_iff)

lemma tools_invoked_append: "tools_invoked (xs @ ys) = tools_invoked xs @ tools_invoked ys"
  by (induction xs rule: tools_invoked.induct) simp_all

lemma decisions_append: "decisions (xs @ ys) = decisions xs + decisions ys"
  by (simp add: decisions_def)

lemma decisions_simps:
  "decisions [] = 0"
  "decisions (e # evs) = (if e = DecisionRequested then 1 else 0) + decisions evs"
  by (simp_all add: decisions_def)

lemma history_append_turn: "history (append_turn r c s) = history s @ [(r, c)]"
  by (simp add: append_turn_def)

lemma events_append_turn: "events (append_turn r c s) = events s"
  by (simp add: append_turn_def)

lemma history_log_events: "history (log_events evs s) = history s"
  by (simp add: log_events_def)

lemma events_log_events: "events (log_events evs s) = events s @ evs"
  by (simp add: log_events_def)

lemma dispatch_events: "events (dispatch E W name args s) = events s @ [ToolInvoked name args]"
  by (simp add: dispatch_def Let_def events_append_turn events_log_events
      split: tool_outcome.splits sum.splits)

lemma dispatch_history:
  "\<exists>c. history (dispatch E W name args s) = history s @ [(Assistant, c)]"
  by (simp add: dispatch_def Let_def history_append_turn history_log_events
      split: tool_outcome.splits sum.splits)

lemma reflect_events:
  "reflect_with_groq E outcome answer = Inr (r, evs) \<Longrightarrow> evs = [] \<or> evs = [ReviewRequested answer]"
  by (auto simp: reflect_with_groq_def and_then_def split: sum.splits if_splits)

lemma final_branch_flow: "fst (final_branch E W user decision s) \<noteq> Continue"
  by (simp add: final_branch_def Let_def split: sum.splits prod.splits)

lemma final_branch_history:
  "history (snd (final_branch E W user decision s)) = history s
   \<or> (\<exists>c. history (snd (final_branch E W user decision s)) = history s @ [(Assistant, c)])"
  by (simp add: final_branch_def Let_def history_append_turn history_log_events
      split: sum.splits prod.splits)

lemma final_branch_events:
  "tools_invoked (events (snd (final_branch E W user decision s))) = tools_invoked (events s)
   \<and> decisions (events (snd (final_branch E W user decision s))) = decisions (events s)"
  by (auto simp: final_branch_def Let_def events_append_turn events_log_events
      tools_invoked_append decisions_def dest!: reflect_events split: sum.splits prod.splits)

lemma loop_body_history:
  "extends (history s) (history (snd (loop_body E W tool_index user step s)))"
proof -
  have fb: "extends (history s) (history (snd (final_branch E W user d (log_events evs s))))"
    for d evs
    using final_branch_history [of E W user d "log_events evs s"]
    by (auto simp: history_log_events extends_iff)
  have dp: "extends (history s) (history (dispatch E W n a (log_events evs s)))" for n a evs
    using dispatch_history [of E W n a "log_events evs s"]
    by (auto simp: history_log_events extends_iff)
  have dp2: "extends (history s) (history (dispatch E W n a (log_events evs s)) @ [(Assistant, c)])"
    for n a evs c
    using dispatch_history [of E W n a "log_events evs s"]
    by (auto simp: history_log_events extends_iff)
  show ?thesis
    by (simp add: loop_body_def Let_def fb dp dp2 history_append_turn history_log_events
        extends_refl extends_append split: sum.splits json.splits)
qed

lemma loop_body_tools:
  "set (tools_invoked (events (snd (loop_body E W tool_index user step s))))
     \<subseteq> set (tools_invoked (events s)) \<union> set tool_index"
  by (simp add: loop_body_def Let_def final_branch_events events_append_turn events_log_events
        dispatch_events tools_invoked_append split: sum.splits json.splits)

lemma loop_body_decisions:
  "decisions (events (snd (loop_body E W tool_index user step s))) = Suc (decisions (events s))"
  by (simp add: loop_body_def Let_def final_branch_events events_append_turn events_log_events
        dispatch_events decisions_append decisions_simps split: sum.splits json.splits)

lemma run_steps_history:
  "extends (history s) (history (snd (run_steps E W tool_index user steps s)))"
proof (induction steps arbitrary: s)
  case Nil
  then show ?case by (simp add: extends_refl)
next
  case (Cons step steps)
  obtain f s' where b: "loop_body E W tool_index user step s = (f, s')"
    by (cases "loop_body E W tool_index user step s")
  have e: "extends (history s) (history s')"
    using loop_body_history [of s E W tool_index user step] by (simp add: b)
  show ?case
  proof (cases f)
    case Continue
    with b e Cons.IH [of s'] show ?thesis by (auto intro: extends_trans)
  next
    case Break
    with b e show ?thesis by simp
  next
    case (Crashed x)
    with b e show ?thesis by simp
  qed
qed

lemma run_steps_tools:
  "set (tools_invoked (events (snd (run_steps E W tool_index user steps s))))
     \<subseteq> set (tools_invoked (events s)) \<union> set tool_index"
proof (induction steps arbitrary: s)
  case Nil
  then show ?case by simp
next
  case (Cons step steps)
  obtain f s' where b: "loop_body E W tool_index user step s = (f, s')"
    by (cases "loop_body E W tool_index user step s")
  have e: "set (tools_invoked (events s')) \<subseteq> set (tools_invoked (events s)) \<union> set tool_index"
    using loop_body_tools [of E W tool_index user step s] by (simp add: b)
  show ?case
  proof (cases f)
    case Continue
    with b e Cons.IH [of s'] show ?thesis by auto
  next
    case Break
    with b e show ?thesis by simp
  next
    case (Crashed x)
    with b e show ?thesis by simp
  qed
qed

lemma run_steps_decisions:
  "decisions (events (snd (run_steps E W tool_index user steps s)))
     \<le> decisions (events s) + length steps"
proof (induction steps arbitrary: s)
  case Nil
  then show ?case by simp
next
  case (Cons step steps)
  obtain f s' where b: "loop_body E W tool_index user step s = (f, s')"
    by (cases "loop_body E W tool_index user step s")
  have e: "decisions (events s') = Suc (decisions (events s))"
    using loop_body_decisions [of E W tool_index user step s] by (simp add: b)
  show ?case
  proof (cases f)
    case Continue
    with b e Cons.IH [of s'] show ?thesis by simp
  next
    case Break
    with b e show ?thesis by simp
  next
    case (Crashed x)
    with b e show ?thesis by simp
  qed
qed

lemma handle_message_history:
  "extends (history s) (history (snd (handle_message E W tool_index user s)))"
proof -
  let ?s0 = "(append_turn User (JString user) s)\<lparr>gathered_info := no_info\<rparr>"
  have "extends (history s) (history ?s0)"
    by (simp add: append_turn_def extends_append)
  moreover have "extends (history ?s0) (history (snd (run_steps E W tool_index user [0..<12] ?s0)))"
    by (rule run_steps_history)
  ultimately show ?thesis
    unfolding handle_message_def by (rule extends_trans)
qed

lemma handle_message_tools:
  "set (tools_invoked (events (snd (handle_message E W tool_index user s))))
     \<subseteq> set (tools_invoked (events s)) \<union> set tool_index"
  using run_steps_tools [of E W tool_index user "[0..<12]"
      "(append_turn User (JString user) s)\<lparr>gathered_info := no_info\<rparr>"]
  by (simp add: handle_message_def append_turn_def)

text \<open>For one user message at most 12 decisions are requested.\<close>

lemma handle_message_decisions:
  "decisions (events (snd (handle_message E W tool_index user s))) \<le> decisions (events s) + 12"
  using run_steps_decisions [of E W tool_index user "[0..<12]"
      "(append_turn User (JString user) s)\<lparr>gathered_info := no_info\<rparr>"]
  by (simp add: handle_message_def append_turn_def)

lemma session_loop_history:
  "extends (history s) (history (snd (session_loop E W tool_index lines s)))"
proof (induction lines arbitrary: s)
  case Nil
  then show ?case by (simp add: extends_refl)
next
  case (Cons line rest)
  obtain f s' where b: "handle_message E W tool_index (py_strip line) s = (f, s')"
    by (cases "handle_message E W tool_index (py_strip line) s")
  have e: "extends (history s) (history s')"
    using handle_message_history [of s E W tool_index "py_strip line"] by (simp add: b)
  show ?case
  proof (cases "is_exit (py_strip line)")
    case True
    then show ?thesis by (simp add: extends_refl)
  next
    case False
    show ?thesis
    proof (cases f)
      case (Crashed x)
      with False b e show ?thesis by simp
    next
      case Break
      with False b e Cons.IH [of s'] show ?thesis by (auto intro: extends_trans)
    next
      case Continue
      with False b e Cons.IH [of s'] show ?thesis by (auto intro: extends_trans)
    qed
  qed
qed

lemma session_loop_tools:
  "set (tools_invoked (events (snd (session_loop E W tool_index lines s))))
     \<subseteq> set (tools_invoked (events s)) \<union> set tool_index"
proof (induction lines arbitrary: s)
  case Nil
  then show ?case by simp
next
  case (Cons line rest)
  obtain f s' where b: "handle_message E W tool_index (py_strip line) s = (f, s')"
    by (cases "handle_message E W tool_index (py_strip line) s")
  have e: "set (tools_invoked (events s')) \<subseteq> set (tools_invoked (events s)) \<union> set tool_index"
    using handle_message_tools [of E W tool_index "py_strip line" s] by (simp add: b)
  show ?case
  proof (cases "is_exit (py_strip line)")
    case True
    then show ?thesis by simp
  next
    case False
    show ?thesis
    proof (cases f)
      case (Crashed x)
      with False b e show ?thesis by simp
    next
      case Break
      with False b e Cons.IH [of s'] show ?thesis by auto
    next
      case Continue
      with False b e Cons.IH [of s'] show ?thesis by auto
    qed
  qed
qed

lemma session_loop_append:
  "session_loop E W tool_index (lines @ later) s =
     (case session_loop E W tool_index lines s of
        (EndOfInput, s') \<Rightarrow> session_loop E W tool_index later s'
      | r \<Rightarrow> r)"
proof (induction lines arbitrary: s)
  case Nil
  then show ?case by simp
next
  case (Cons line rest)
  show ?case
    by (simp add: Let_def Cons.IH split: prod.splits flow.splits)
qed

section \<open>Rejected tool names\<close>

lemma loop_body_rejects:
  assumes "llm_json E (post_chat W (history s)) = Inr decision"
    and "dict_get decision ''action'' JNull = tname"
    and "tname \<noteq> JString ''final''"
    and "missing_or_unknown tool_index tname"
    and "hashable tname"
  shows "loop_body E W tool_index user step s =
     (Continue,
      s\<lparr>history := history s @
           [(Assistant, JString (rejection_text E tname @ names_repr E tool_index))],
        events := events s @ [DecisionRequested]\<rparr>)"
  using assms
  by (auto simp: loop_body_def Let_def missing_or_unknown_def hashable_def rejection_text_def
      need_action_def not_found_def append_turn_def log_events_def split: json.splits)

text \<open>A name that is a non-empty list or dictionary cannot be looked up in the registry:
  the step raises, and the session ends without a tool call.\<close>

lemma loop_body_unhashable:
  assumes "llm_json E (post_chat W (history s)) = Inr decision"
    and "dict_get decision ''action'' JNull = tname"
    and "truthy tname" and "\<not> hashable tname"
  shows "loop_body E W tool_index user step s = (Crashed TypeError, log_events [DecisionRequested] s)"
  using assms by (auto simp: loop_body_def Let_def hashable_def split: json.splits)

lemma run_session_tools:
  "set (tools_invoked (events (snd (run_session E W tool_index p lines)))) \<subseteq> set tool_index"
  using session_loop_tools [of E W tool_index lines "initial_state p"]
  by (simp add: run_session_def initial_state_def)

lemma unknown_reply_decoded:
  "llm_json sample_env (Response 200 (chat_body unknown_reply))
     = Inr [(''action'', JString ''nonexistent_tool''), (''args'', JObject [])]"
  by code_simp

lemma unknown_text:
  "rejection_text sample_env (JString ''nonexistent_tool'') @ names_repr sample_env sample_tools
   = ''Tool '' @ [CHR 0x27] @ ''nonexistent_tool'' @ [CHR 0x27]
      @ '' not found. Available: ['' @ [CHR 0x27] @ ''get_weather'' @ [CHR 0x27]
      @ '', '' @ [CHR 0x27] @ ''random_joke'' @ [CHR 0x27] @ '']''"
  by code_simp

lemma joke_session:
  \<open>snd (run_session sample_env joke_world sample_tools ''p'' [''  tell me a joke '', ''exit''])
   = \<lparr>history =
        [(System, JString ''p''), (User, JString ''tell me a joke''),
         (Assistant, JString ''[tool:random_joke] {"joke":"Knock knock"}''),
         (Assistant, JString ''Done.'')],
      gathered_info = no_info\<lparr>joke := JString ''Knock knock''\<rparr>,
      events = [DecisionRequested, ToolInvoked ''random_joke'' (JObject []), DecisionRequested]\<rparr>\<close>
  by code_simp

lemma list_name_decoded:
  "llm_json sample_env (Response 200 (chat_body list_name_reply))
     = Inr (tool_call (JArray [JString ''get_weather'']) (JObject []))"
  by code_simp

lemma list_name_step:
  "loop_body sample_env (scripted list_name_reply outcome) sample_tools user step s
   = (Crashed TypeError, log_events [DecisionRequested] s)"
  by (rule loop_body_unhashable
        [where decision = "tool_call (JArray [JString ''get_weather'']) (JObject [])"
           and tname = "JArray [JString ''get_weather'']"])
    (simp_all add: scripted_def list_name_decoded dict_get_def tool_call_def hashable_def)

text \<open>
  C7. A tool name that is missing, empty or not in the registry is to be answered with
  one assistant turn that lists the registered names, after which the loop goes on. The
  code does so for every name that Python can hash (\<open>loop_body_rejects\<close>), and no tool is
  ever invoked under a name that is not registered (\<open>run_session_tools\<close>). But the
  decoder passes on a name of any type, and for a name that is a list, as in
  \<^verbatim>\<open>{"action":["get_weather"],"args":{}}\<close>, the test \<^verbatim>\<open>tname not in tool_index\<close> raises a
  \<^verbatim>\<open>TypeError\<close>: no turn is appended and the session ends.
\<close>

theorem list_name_ends_session:
  "missing_or_unknown sample_tools (JArray [JString ''get_weather''])
   \<and> decode sample_env list_name_reply
       = Inr (tool_call (JArray [JString ''get_weather'']) (JObject []))
   \<and> loop_body sample_env (scripted list_name_reply (Raised [])) sample_tools ''hi'' 0
       (initial_state ''p'')
     = (Crashed TypeError,
        \<lparr>history = [(System, JString ''p'')], gathered_info = no_info,
           events = [DecisionRequested]\<rparr>)
   \<and> run_session sample_env (scripted list_name_reply (Raised [])) sample_tools ''p''
       [''hi'', ''again'']
     = (Died TypeError,
        \<lparr>history = [(System, JString ''p''), (User, JString ''hi'')], gathered_info = no_info,
           events = [DecisionRequested]\<rparr>)"
proof -
  have a: "missing_or_unknown sample_tools (JArray [JString ''get_weather''])"
    by (auto simp: missing_or_unknown_def sample_tools_def)
  have b: "decode sample_env list_name_reply
       = Inr (tool_call (JArray [JString ''get_weather'']) (JObject []))"
    by code_simp
  have c: "py_strip ''hi'' = ''hi''" "\<not> is_exit ''hi''"
    by code_simp+
  have d: "run_session sample_env (scripted list_name_reply (Raised [])) sample_tools ''p''
       [''hi'', ''again'']
     = (Died TypeError,
        \<lparr>history = [(System, JString ''p''), (User, JString ''hi'')], gathered_info = no_info,
           events = [DecisionRequested]\<rparr>)"
    by (simp add: run_session_def c handle_message_def upt_rec list_name_step
        initial_state_def append_turn_def log_events_def)
  show ?thesis
    using a b d by (simp add: list_name_step initial_state_def log_events_def)
qed

section \<open>The system turn\<close>

lemma no_consecutive_system:
  "System \<notin> set (map fst ts) \<Longrightarrow> \<not> consecutive_system (t # ts)"
  by (induction ts arbitrary: t) auto

lemma run_session_start:
  "extends [(System, JString p)] (history (snd (run_session E W tool_index p lines)))"
  using session_loop_history [of "initial_state p" E W tool_index lines]
  by (simp add: run_session_def initial_state_def)

lemma run_session_append:
  "extends (history (snd (run_session E W tool_index p lines)))
     (history (snd (run_session E W tool_index p (lines @ later))))"
proof -
  obtain f s' where r: "session_loop E W tool_index lines (initial_state p) = (f, s')"
    by (cases "session_loop E W tool_index lines (initial_state p)")
  show ?thesis
  proof (cases f)
    case EndOfInput
    with r show ?thesis
      by (simp add: run_session_def session_loop_append session_loop_history)
  next
    case Quit
    with r show ?thesis by (simp add: run_session_def session_loop_append extends_refl)
  next
    case (Died e)
    with r show ?thesis by (simp add: run_session_def session_loop_append extends_refl)
  qed
qed

text \<open>
  C8. In the history of a session, however it ends, the first turn is the system turn of
  the start and it is the only system turn, so no two system turns follow each other; a
  session that reads more lines extends the history of the session that read fewer by
  user and assistant turns only, so the history grows by appending (the same holds for
  every step and every message: \<open>loop_body_history\<close>, \<open>handle_message_history\<close>).
\<close>

theorem one_system_turn:
  "take 1 (history (snd (run_session E W tool_index p lines))) = [(System, JString p)]
   \<and> system_turns (history (snd (run_session E W tool_index p lines))) = 1
   \<and> \<not> consecutive_system (history (snd (run_session E W tool_index p lines)))
   \<and> extends (history (snd (run_session E W tool_index p lines)))
       (history (snd (run_session E W tool_index p (lines @ later))))"
proof -
  obtain ts where h: "history (snd (run_session E W tool_index p lines)) = (System, JString p) # ts"
    and ts: "System \<notin> set (map fst ts)"
    using run_session_start [of p E W tool_index lines] by (auto simp: extends_iff)
  have "filter (\<lambda>t. fst t = System) ts = []"
    using ts by (force simp: filter_empty_conv)
  then have "system_turns ((System, JString p) # ts) = 1"
    by (simp add: system_turns_def)
  moreover have "\<not> consecutive_system ((System, JString p) # ts)"
    using ts by (rule no_consecutive_system)
  ultimately show ?thesis
    using h run_session_append [of E W tool_index p lines later] by simp
qed

theorem one_system_turn_witness:
  \<open>history (snd (run_session sample_env joke_world sample_tools ''p'' ([''  tell me a joke ''] @ [''exit''])))
     = [(System, JString ''p''), (User, JString ''tell me a joke''),
        (Assistant, JString ''[tool:random_joke] {"joke":"Knock knock"}''),
        (Assistant, JString ''Done.'')]
   \<and> system_turns (history (snd (run_session sample_env joke_world sample_tools ''p''
        ([''  tell me a joke ''] @ [''exit''])))) = 1
   \<and> \<not> consecutive_system (history (snd (run_session sample_env joke_world sample_tools ''p''
        ([''  tell me a joke ''] @ [''exit'']))))
   \<and> extends (history (snd (run_session sample_env joke_world sample_tools ''p''
         [''  tell me a joke ''])))
       (history (snd (run_session sample_env joke_world sample_tools ''p''
         ([''  tell me a joke ''] @ [''exit'']))))\<close>
  using one_system_turn [where E = sample_env and W = joke_world and tool_index = sample_tools
      and p = "''p''" and lines = "[''  tell me a joke ''] @ [''exit'']" and later = "[]"]
    one_system_turn [where E = sample_env and W = joke_world and tool_index = sample_tools
      and p = "''p''" and lines = "[''  tell me a joke '']" and later = "[''exit'']"]
  by (simp add: joke_session)

section \<open>The step budget\<close>

text \<open>On the last step a call of a registered tool is followed by the forced answer.\<close>

lemma last_step_forced_answer:
  assumes "llm_json E (post_chat W (history s)) = Inr decision"
    and "dict_get decision ''action'' JNull = JString name"
    and "name \<noteq> ''final''" and "name \<in> set tool_index" and "name \<noteq> []"
    and "11 \<le> step"
  shows "loop_body E W tool_index user step s =
     (Break,
      append_turn Assistant
        (JString (budget_answer E (gathered_info
           (dispatch E W name (dict_get decision ''args'' (JObject []))
              (log_events [DecisionRequested] s)))))
        (dispatch E W name (dict_get decision ''args'' (JObject []))
           (log_events [DecisionRequested] s)))"
  using assms by (simp add: loop_body_def Let_def)

lemma unknown_step:
  "loop_body sample_env (scripted unknown_reply outcome) sample_tools user step s =
     (Continue, s\<lparr>history := history s @ [unknown_turn],
                   events := events s @ [DecisionRequested]\<rparr>)"
proof -
  have "loop_body sample_env (scripted unknown_reply outcome) sample_tools user step s =
     (Continue,
      s\<lparr>history := history s @
           [(Assistant, JString (rejection_text sample_env (JString ''nonexistent_tool'')
               @ names_repr sample_env sample_tools))],
        events := events s @ [DecisionRequested]\<rparr>)"
    by (rule loop_body_rejects
          [where decision = "[(''action'', JString ''nonexistent_tool''), (''args'', JObject [])]"])
      (simp_all add: scripted_def unknown_reply_decoded dict_get_def missing_or_unknown_def
        hashable_def sample_tools_def)
  then show ?thesis
    by (simp only: unknown_text unknown_turn_def)
qed

lemma unknown_steps:
  "run_steps sample_env (scripted unknown_reply outcome) sample_tools user steps s =
     (Continue, s\<lparr>history := history s @ replicate (length steps) unknown_turn,
                   events := events s @ replicate (length steps) DecisionRequested\<rparr>)"
proof (induction steps arbitrary: s)
  case Nil
  then show ?case by simp
next
  case (Cons step steps)
  show ?case
    by (simp add: unknown_step Cons.IH replicate_append_same)
qed

text \<open>
  C2. No more than 12 decisions are requested for one user message
  (\<open>handle_message_decisions\<close>), and a tool call on the twelfth step is followed by the
  forced answer (\<open>last_step_forced_answer\<close>). But when the twelfth decision names a tool
  that is not registered, the \<^verbatim>\<open>continue\<close> of the rejection skips the forced answer: with
  twelve such decisions the loop ends with twelve rejections in the history and no
  terminal turn.
\<close>

theorem budget_exhausted_without_answer:
  "handle_message sample_env (scripted unknown_reply (Raised [])) sample_tools ''hi''
     (initial_state ''p'')
   = (Continue,
      \<lparr>history = [(System, JString ''p''), (User, JString ''hi'')] @ replicate 12 unknown_turn,
       gathered_info = no_info,
       events = replicate 12 DecisionRequested\<rparr>)"
  by (simp add: handle_message_def unknown_steps append_turn_def initial_state_def)


end
